theory Spec2Isabelle
  imports Main
begin

section \<open>JavaScript strings\<close>

text \<open>
  A JavaScript string is a sequence of UTF-16 code units; \<open>length\<close>, \<open>slice\<close> and a
  regular expression without the \<open>u\<close> flag all work on code units. A code unit is
  modelled as a natural number, a string as the list of its code units. Literals of the
  source are written \<open>js ''...''\<close>.
\<close>

type_synonym jschar = nat
type_synonym jsstring = "jschar list"

abbreviation js :: "string \<Rightarrow> jsstring" where
  "js s \<equiv> map of_char s"

text \<open>The class \<open>\d\<close>: the ten ASCII digits.\<close>

definition is_digit :: "jschar \<Rightarrow> bool" where
  "is_digit c = (48 \<le> c \<and> c \<le> 57)"

text \<open>
  The class \<open>\s\<close>, which is also what \<open>String.prototype.trim\<close> strips: TAB, LF, VT, FF,
  CR, space, no-break space, U+1680, U+2000 to U+200A, U+2028, U+2029, U+202F, U+205F,
  U+3000 and U+FEFF.
\<close>

definition is_space :: "jschar \<Rightarrow> bool" where
  "is_space c = (c \<in> {9, 10, 11, 12, 13, 32, 160, 5760, 8232, 8233, 8239, 8287, 12288, 65279}
     \<or> (8192 \<le> c \<and> c \<le> 8202))"

text \<open>
  \<open>s.slice(start, end)\<close>: a negative index counts from the end, both indices are clamped
  to the string, and an end before the start gives the empty string. \<open>None\<close> is an
  omitted \<open>end\<close>.
\<close>

definition rel_index :: "int \<Rightarrow> int \<Rightarrow> int" where
  "rel_index len i = (if i < 0 then max (len + i) 0 else min i len)"

definition slice :: "'a list \<Rightarrow> int \<Rightarrow> int option \<Rightarrow> 'a list" where
  "slice s start end =
     (let len = int (length s);
          from = rel_index len start;
          to = (case end of None \<Rightarrow> len | Some e \<Rightarrow> rel_index len e)
      in take (nat (to - from)) (drop (nat from) s))"

text \<open>
  \<open>toLowerCase\<close> on Basic Latin: \<open>A\<close> to \<open>Z\<close> move to \<open>a\<close> to \<open>z\<close>. It is used below
  only on a string already reduced to digits, \<open>k\<close> and \<open>K\<close>.
\<close>

definition toLowerCase_latin :: "jsstring \<Rightarrow> jsstring" where
  "toLowerCase_latin s = map (\<lambda>c. if 65 \<le> c \<and> c \<le> 90 then c + 32 else c) s"

section \<open>Anchored regular expressions\<close>

text \<open>
  The validators test a string against a pattern of the form \<open>^ p1 p2 ... pn $\<close>, where
  each piece is a character class with a repetition range \<open>{lo,hi}\<close> (a bare class is
  \<open>{1,1}\<close>). Without the \<open>m\<close> flag \<open>^\<close> and \<open>$\<close> are the two ends of the input, so \<open>test\<close>
  succeeds exactly when the whole string splits into runs, one per piece, of an allowed
  length and drawn from the piece's class.
\<close>

type_synonym piece = "(jschar \<Rightarrow> bool) \<times> nat \<times> nat"

fun regex_test :: "piece list \<Rightarrow> jsstring \<Rightarrow> bool" where
  "regex_test [] s = (s = [])"
| "regex_test ((cls, lo, hi) # ps) s =
     list_ex (\<lambda>n. n \<le> length s \<and> list_all cls (take n s) \<and> regex_test ps (drop n s))
       [lo..<Suc hi]"

section \<open>Validation and formatting utilities (src/utils/validators.ts)\<close>

text \<open>
  \<open>validateRut\<close> tests \<open>/^\d{7,8}-[\dk]$/i\<close>. Under the \<open>i\<close> flag the class \<open>[\dk]\<close> also
  takes \<open>K\<close>; the digits and the hyphen have no other case.
\<close>

definition is_hyphen :: "jschar \<Rightarrow> bool" where
  "is_hyphen c = (c = 45)"

definition is_dv :: "jschar \<Rightarrow> bool" where
  "is_dv c = (is_digit c \<or> c = 107 \<or> c = 75)"

definition rutRegex :: "piece list" where
  "rutRegex = [(is_digit, 7, 8), (is_hyphen, 1, 1), (is_dv, 1, 1)]"

definition validateRut :: "jsstring \<Rightarrow> bool" where
  "validateRut rut = regex_test rutRegex rut"

text \<open>
  \<open>formatRut\<close>: drop everything but digits, \<open>k\<close> and \<open>K\<close>, lower the case, and put a hyphen
  before the last character when there are at least two.
\<close>

definition is_rut_char :: "jschar \<Rightarrow> bool" where
  "is_rut_char c = (is_digit c \<or> c = 107 \<or> c = 75)"

definition formatRut :: "jsstring \<Rightarrow> jsstring" where
  "formatRut v =
     (let cleaned = toLowerCase_latin (filter is_rut_char v)
      in if length cleaned > 1
         then (let body = slice cleaned 0 (Some (- 1));
                   dv = slice cleaned (- 1) None
               in body @ js ''-'' @ dv)
         else cleaned)"

text \<open>\<open>formatPhone\<close>: drop every non-digit, keep at most nine code units.\<close>

definition formatPhone :: "jsstring \<Rightarrow> jsstring" where
  "formatPhone v = slice (filter is_digit v) 0 (Some 9)"

text \<open>
  \<open>formatAddress\<close>: keep ASCII letters and digits, the accented vowels and \<open>n\<close> with tilde
  of either case, white space, and the four characters \<open>. ' # -\<close>.
\<close>

definition is_address_char :: "jschar \<Rightarrow> bool" where
  "is_address_char c =
     ((97 \<le> c \<and> c \<le> 122) \<or> (65 \<le> c \<and> c \<le> 90) \<or> is_digit c
      \<or> c \<in> {225, 233, 237, 243, 250, 193, 201, 205, 211, 218, 241, 209}
      \<or> is_space c \<or> c \<in> {46, 39, 35, 45})"

definition formatAddress :: "jsstring \<Rightarrow> jsstring" where
  "formatAddress v = filter is_address_char v"


text \<open>The code units a cleaned RUT can hold after the case has been lowered.\<close>

definition is_low_rut :: "jschar \<Rightarrow> bool" where
  "is_low_rut c = (is_digit c \<or> c = 107)"

section \<open>Values of a request body\<close>

text \<open>
  The body of a submission is the object the form builds (Form.tsx): text fields are
  strings, the three service flags are booleans, the add-ons and the document URLs are
  arrays of strings. A field may also be \<open>null\<close> or absent (\<open>undefined\<close>). The object is an
  association list from keys to values; reading a key that is not there gives
  \<open>undefined\<close>.
\<close>

datatype jsval = JUndefined | JNull | JBool bool | JStr jsstring | JArr "jsstring list"

type_synonym jsobject = "(jsstring \<times> jsval) list"

definition field :: "jsobject \<Rightarrow> string \<Rightarrow> jsval" where
  "field obj k = (case map_of obj (js k) of None \<Rightarrow> JUndefined | Some v \<Rightarrow> v)"

text \<open>\<open>Object.keys(obj).length\<close>: the number of distinct keys.\<close>

definition keys_length :: "jsobject \<Rightarrow> nat" where
  "keys_length obj = length (remdups (map fst obj))"

text \<open>Truthiness, as \<open>!!v\<close>, \<open>v ? a : b\<close>, \<open>v || d\<close> and \<open>filter(Boolean)\<close> see it.\<close>

fun truthy :: "jsval \<Rightarrow> bool" where
  "truthy JUndefined = False"
| "truthy JNull = False"
| "truthy (JBool b) = b"
| "truthy (JStr s) = (s \<noteq> [])"
| "truthy (JArr xs) = True"

definition or_else :: "jsval \<Rightarrow> jsval \<Rightarrow> jsval" where
  "or_else v d = (if truthy v then v else d)"

text \<open>\<open>xs.join(sep)\<close> on an array of strings.\<close>

fun join :: "jsstring \<Rightarrow> jsstring list \<Rightarrow> jsstring" where
  "join sep [] = []"
| "join sep [x] = x"
| "join sep (x # y # ys) = x @ sep @ join sep (y # ys)"

text \<open>\<open>String(v)\<close>, which is also how a template literal renders \<open>v\<close>.\<close>

fun to_String :: "jsval \<Rightarrow> jsstring" where
  "to_String JUndefined = js ''undefined''"
| "to_String JNull = js ''null''"
| "to_String (JBool b) = (if b then js ''true'' else js ''false'')"
| "to_String (JStr s) = s"
| "to_String (JArr xs) = join (js '','') xs"

text \<open>\<open>s.trim()\<close> strips white space and line terminators from both ends.\<close>

definition trim :: "jsstring \<Rightarrow> jsstring" where
  "trim s = rev (dropWhile is_space (rev (dropWhile is_space s)))"

text \<open>
  Exceptions: a \<open>TypeError\<close> of the handler's own (calling \<open>join\<close> or \<open>trim\<close> on a value
  that has no such method, reading \<open>id\<close> of \<open>null\<close>) and an error thrown by an API client.
\<close>

datatype exn = TypeError | ApiError jsstring

text \<open>
  \<open>v?.join(", ")\<close>: \<open>undefined\<close> for a nullish \<open>v\<close>, the joined string for an array, a
  \<open>TypeError\<close> for any other value.
\<close>

fun opt_join :: "jsval \<Rightarrow> exn + jsval" where
  "opt_join JUndefined = Inr JUndefined"
| "opt_join JNull = Inr JUndefined"
| "opt_join (JArr xs) = Inr (JStr (join (js '', '') xs))"
| "opt_join (JBool b) = Inl TypeError"
| "opt_join (JStr s) = Inl TypeError"

text \<open>\<open>Array.isArray(v) ? v.join(", ") : ""\<close> and its variant for the relational row.\<close>

fun urls_cell :: "jsval \<Rightarrow> jsstring" where
  "urls_cell (JArr xs) = join (js '', '') xs"
| "urls_cell v = []"

fun urls_or_null :: "jsval \<Rightarrow> jsval" where
  "urls_or_null (JArr xs) = (if length xs > 0 then JStr (join (js '', '') xs) else JNull)"
| "urls_or_null v = JNull"

section \<open>The plan selector (components/PlanSelector.tsx)\<close>

text \<open>
  A row of \<open>planes_active\<close>, as \<open>getPlanes\<close> returns it. Amounts are in CLP; a \<open>null\<close>
  column is \<open>None\<close>. The column \<open>id\<close> is written \<open>id'\<close>.
\<close>

record PlanDB =
  id' :: nat
  nombre :: jsstring
  marca :: jsstring
  segmento :: jsstring
  categoria :: jsstring
  precio :: int
  descuento_nacional :: "int option"
  descuento_especial :: "int option"
  duracion :: jsstring
  rgu :: int
  internet_activo :: bool
  internet_velocidad :: "jsstring option"
  television_activa :: bool
  television_plan :: "jsstring option"
  telefonia_activa :: bool
  disponible :: bool

text \<open>
  An option shown to the user. The nested \<open>servicios\<close> object is flattened:
  \<open>servicios.internet.activo\<close> is \<open>servicios_internet_activo\<close> and so on.
\<close>

record Plan =
  nombre :: jsstring
  precio :: int
  descuento_nacional :: int
  descuento_especial :: "int option"
  duracion :: jsstring
  rgu :: int
  servicios_internet_activo :: bool
  servicios_internet_velocidad :: "jsstring option"
  servicios_television_activo :: bool
  servicios_television_plan_tv :: "jsstring option"
  servicios_telefonia_activo :: bool












text \<open>
  \<open>toUpperCase\<close> on Basic Latin, to run the selector on sample data whose text is ASCII.
\<close>

definition toUpperCase_latin :: "jsstring \<Rightarrow> jsstring" where
  "toUpperCase_latin s = map (\<lambda>c. if 97 \<le> c \<and> c \<le> 122 then c - 32 else c) s"

subsection \<open>A sample table of plans\<close>




section \<open>The upload endpoint (api/upload-file.js)\<close>

text \<open>
  Reading \<open>table[key]\<close> on an object literal finds the literal's own keys and then the
  members every object inherits from \<open>Object.prototype\<close>. An inherited member is a function
  (for \<open>__proto__\<close>, the prototype object itself), so it is truthy.
\<close>

datatype 'a property = Own 'a | Inherited jsstring | Missing

definition object_prototype_keys :: "jsstring list" where
  "object_prototype_keys =
     [js ''constructor'', js ''toString'', js ''toLocaleString'', js ''valueOf'',
      js ''hasOwnProperty'', js ''isPrototypeOf'', js ''propertyIsEnumerable'',
      js ''__proto__'', js ''__defineGetter__'', js ''__defineSetter__'',
      js ''__lookupGetter__'', js ''__lookupSetter__'']"

definition get_prop :: "(jsstring \<times> 'a) list \<Rightarrow> jsstring \<Rightarrow> 'a property" where
  "get_prop table k =
     (case map_of table k of
        Some v \<Rightarrow> Own v
      | None \<Rightarrow> if k \<in> set object_prototype_keys then Inherited k else Missing)"

fun prop_truthy :: "'a property \<Rightarrow> bool" where
  "prop_truthy (Own v) = True"
| "prop_truthy (Inherited k) = True"
| "prop_truthy Missing = False"

definition ALLOWED_TYPES :: "(jsstring \<times> jsstring) list" where
  "ALLOWED_TYPES =
     [(js ''image/jpeg'', js ''jpg''),
      (js ''image/jpg'', js ''jpg''),
      (js ''image/png'', js ''png''),
      (js ''image/webp'', js ''webp''),
      (js ''application/pdf'', js ''pdf'')]"

text \<open>\<open>CATEGORIA_CONFIG\<close>: the folder and the suffix of each category.\<close>

definition CATEGORIA_CONFIG :: "(jsstring \<times> jsstring \<times> jsstring) list" where
  "CATEGORIA_CONFIG =
     [(js ''rut-frontal'', js ''rut-frontal'', js ''frontal''),
      (js ''rut-posterior'', js ''rut-posterior'', js ''posterior''),
      (js ''factibilidad-app'', js ''factibilidad-app'', js ''factibilidad''),
      (js ''otros-documentos'', js ''otros-documentos'', js ''doc'')]"

definition MAX_FILE_SIZE :: nat where
  "MAX_FILE_SIZE = 10 * 1024 * 1024"

definition sanitizeRut :: "jsstring \<Rightarrow> jsstring" where
  "sanitizeRut r = filter (\<lambda>c. c \<noteq> 46 \<and> c \<noteq> 45) r"

text \<open>
  \<open>file.replace(/^data:.*?;base64,/, '')\<close>: when the string starts with \<open>data:\<close> and the
  marker \<open>;base64,\<close> follows with no line terminator in between, everything up to the
  first such marker is dropped; otherwise the string is unchanged.
\<close>

definition is_line_terminator :: "jschar \<Rightarrow> bool" where
  "is_line_terminator c = (c \<in> {10, 13, 8232, 8233})"

fun after_marker :: "jsstring \<Rightarrow> jsstring \<Rightarrow> jsstring option" where
  "after_marker m [] = (if m = [] then Some [] else None)"
| "after_marker m (x # xs) =
     (if take (length m) (x # xs) = m then Some (drop (length m) (x # xs))
      else if is_line_terminator x then None
      else after_marker m xs)"

definition strip_data_url :: "jsstring \<Rightarrow> jsstring" where
  "strip_data_url f =
     (if take 5 f = js ''data:''
      then (case after_marker (js '';base64,'') (drop 5 f) of
              Some rest \<Rightarrow> rest
            | None \<Rightarrow> f)
      else f)"

text \<open>A non-negative integer in a template literal: its decimal digits.\<close>

fun decimal :: "nat \<Rightarrow> jsstring" where
  "decimal n = (if n < 10 then [48 + n] else decimal (n div 10) @ [48 + n mod 10])"

text \<open>
  The request body, with the types its documentation gives: five strings and an
  optional number. \<open>None\<close> is a field that is absent. The field \<open>file\<close> is written
  \<open>file'\<close>.
\<close>

record upload_body =
  file' :: "jsstring option"
  filename :: "jsstring option"
  contentType :: "jsstring option"
  categoria :: "jsstring option"
  rut :: "jsstring option"
  docNumber :: "nat option"

record upload_request =
  up_method :: jsstring
  up_body :: upload_body

text \<open>The \<open>PutObjectCommand\<close> sent to the object storage.\<close>

record put_object =
  Bucket :: jsstring
  Key :: jsstring
  Body :: "nat list"
  ContentType :: jsstring
  meta_originalName :: jsstring
  meta_categoria :: jsstring
  meta_rut :: jsstring
  meta_uploadedAt :: jsstring

text \<open>
  The outside of the upload handler: the platform's base64 decoder
  (\<open>Buffer.from(s, 'base64')\<close>, giving bytes), the text an inherited member has in a
  template literal, the bucket name, the clock, and the answer of the storage to a put.
\<close>

record r2_world =
  Buffer_from_base64 :: "jsstring \<Rightarrow> nat list"
  inherited_text :: "jsstring \<Rightarrow> jsstring"
  R2_BUCKET_NAME :: jsstring
  toISOString :: jsstring
  S3_send :: "put_object \<Rightarrow> exn + unit"

text \<open>
  The responses. \<open>MissingFields\<close>, \<open>InvalidCategory\<close>, \<open>TypeNotAllowed\<close> and \<open>TooLarge\<close> are the
  four 400 bodies; the message of \<open>TooLarge\<close> names the 10MB maximum and the size
  received. \<open>Uploaded\<close> carries \<open>url\<close>, \<open>key\<close>, \<open>size\<close>, \<open>contentType\<close> and \<open>filename\<close>.
\<close>

datatype upload_response =
    UpPreflight
  | UpMethodNotAllowed
  | MissingFields
  | InvalidCategory jsstring
  | TypeNotAllowed jsstring
  | TooLarge nat
  | Uploaded jsstring jsstring nat jsstring jsstring
  | UploadError exn

fun up_status :: "upload_response \<Rightarrow> nat" where
  "up_status UpPreflight = 200"
| "up_status UpMethodNotAllowed = 405"
| "up_status MissingFields = 400"
| "up_status (InvalidCategory c) = 400"
| "up_status (TypeNotAllowed t) = 400"
| "up_status (TooLarge n) = 400"
| "up_status (Uploaded url k n t f) = 200"
| "up_status (UploadError e) = 500"

text \<open>\<open>!v\<close> on an optional string: absent or empty.\<close>

fun present :: "jsstring option \<Rightarrow> bool" where
  "present None = False"
| "present (Some v) = (v \<noteq> [])"

fun str :: "jsstring option \<Rightarrow> jsstring" where
  "str None = []"
| "str (Some v) = v"

text \<open>
  The handler: preflight, method check, the four validations in their order, then the
  key and the put. The result is the response and the puts sent.
\<close>

definition upload_handler :: "r2_world \<Rightarrow> upload_request \<Rightarrow> upload_response \<times> put_object list" where
  "upload_handler w req =
     (if up_method req = js ''OPTIONS'' then (UpPreflight, [])
      else if up_method req \<noteq> js ''POST'' then (UpMethodNotAllowed, [])
      else
        let b = up_body req in
        if \<not> present (file' b) \<or> \<not> present (filename b) \<or> \<not> present (contentType b)
           \<or> \<not> present (categoria b) \<or> \<not> present (rut b)
        then (MissingFields, [])
        else if \<not> prop_truthy (get_prop CATEGORIA_CONFIG (str (categoria b)))
        then (InvalidCategory (str (categoria b)), [])
        else if \<not> prop_truthy (get_prop ALLOWED_TYPES (str (contentType b)))
        then (TypeNotAllowed (str (contentType b)), [])
        else
          let base64Data = strip_data_url (str (file' b));
              buffer = Buffer_from_base64 w base64Data
          in if length buffer > MAX_FILE_SIZE then (TooLarge (length buffer), [])
             else
               let extension = (case get_prop ALLOWED_TYPES (str (contentType b)) of
                                  Own e \<Rightarrow> e
                                | Inherited k \<Rightarrow> inherited_text w k
                                | Missing \<Rightarrow> js ''undefined'');
                   rutSanitized = sanitizeRut (str (rut b));
                   config = (case get_prop CATEGORIA_CONFIG (str (categoria b)) of
                               Own c \<Rightarrow> c
                             | Inherited k \<Rightarrow> (js ''undefined'', js ''undefined'')
                             | Missing \<Rightarrow> (js ''undefined'', js ''undefined''));
                   fileName =
                     (if str (categoria b) = js ''otros-documentos''
                      then (let docNum = (case docNumber b of
                                            None \<Rightarrow> 1
                                          | Some n \<Rightarrow> if n = 0 then 1 else n)
                            in rutSanitized @ js ''-'' @ snd config @ js ''-'' @ decimal docNum
                                 @ js ''.'' @ extension)
                      else rutSanitized @ js ''-'' @ snd config @ js ''.'' @ extension);
                   key = fst config @ js ''/'' @ fileName;
                   command = \<lparr>Bucket = R2_BUCKET_NAME w, Key = key, Body = buffer,
                               ContentType = str (contentType b),
                               meta_originalName = str (filename b),
                               meta_categoria = str (categoria b),
                               meta_rut = str (rut b),
                               meta_uploadedAt = toISOString w\<rparr>
               in case S3_send w command of
                    Inl e \<Rightarrow> (UploadError e, [command])
                  | Inr u \<Rightarrow>
                      (Uploaded (js ''https://ebsaspa.cl/'' @ key) key (length buffer)
                         (str (contentType b)) fileName, [command]))"

subsection \<open>Sample uploads\<close>

text \<open>
  A base64 decoder for the samples: the standard alphabet, read up to the first code unit
  outside it.
\<close>

definition b64_value :: "jschar \<Rightarrow> nat option" where
  "b64_value c =
     (if 65 \<le> c \<and> c \<le> 90 then Some (c - 65)
      else if 97 \<le> c \<and> c \<le> 122 then Some (c - 71)
      else if 48 \<le> c \<and> c \<le> 57 then Some (c + 4)
      else if c = 43 then Some 62
      else if c = 47 then Some 63
      else None)"

fun b64_bytes :: "nat list \<Rightarrow> nat list" where
  "b64_bytes (a # b # c # d # r) =
     [a * 4 + b div 16, (b mod 16) * 16 + c div 4, (c mod 4) * 64 + d] @ b64_bytes r"
| "b64_bytes [a, b, c] = [a * 4 + b div 16, (b mod 16) * 16 + c div 4]"
| "b64_bytes [a, b] = [a * 4 + b div 16]"
| "b64_bytes r = []"

definition b64_decode :: "jsstring \<Rightarrow> nat list" where
  "b64_decode s = b64_bytes (List.map_filter b64_value (takeWhile (\<lambda>c. b64_value c \<noteq> None) s))"

definition sample_r2 :: r2_world where
  "sample_r2 =
     \<lparr>Buffer_from_base64 = b64_decode,
      inherited_text = (\<lambda>k. js ''function Object() { [native code] }''),
      R2_BUCKET_NAME = js ''ebsa-docs'',
      toISOString = js ''2025-10-27T17:30:45.000Z'',
      S3_send = (\<lambda>c. Inr ())\<rparr>"

text \<open>
  An upload of one byte whose \<open>contentType\<close> is the string \<open>constructor\<close>, which is not one
  of the five allowed types.
\<close>

definition constructor_upload :: upload_request where
  "constructor_upload =
     \<lparr>up_method = js ''POST'',
      up_body = \<lparr>file' = Some (js ''QQ==''), filename = Some (js ''a.jpg''),
                 contentType = Some (js ''constructor''),
                 categoria = Some (js ''rut-frontal''),
                 rut = Some (js ''12345678-9''), docNumber = None\<rparr>\<rparr>"

section \<open>Effects of a handler\<close>

text \<open>
  A handler reaches the outside only through the calls below. Running a handler gives
  its response and the list of the calls it made, in order; the backends change only
  through these calls.
\<close>

datatype cell = CellStr jsstring | CellNum nat

text \<open>The A1 range \<open>Fijo_EBSA!<column><row>\<close> of one cell.\<close>

record a1range =
  a1_tab :: jsstring
  a1_col :: jsstring
  a1_row :: nat

record pedido =
  observacion_vendedor :: jsval
  marca :: jsval
  codigo_vendedor :: jsval
  tipo_venta :: jsval
  segmento :: jsval
  tipo_agente :: jsval
  equipo_id :: jsval
  vendedor_id :: jsval
  rut :: jsval
  nombres :: jsval
  apellidos :: jsval
  rut_empresa :: jsval
  nombre_empresa :: jsval
  region :: jsval
  comuna :: jsval
  direccion :: jsval
  numero_contacto :: jsval
  email :: jsval
  plan :: jsval
  productos_adicionales :: jsval
  rgu :: nat
  tiene_internet :: jsval
  tiene_television :: jsval
  tiene_telefonia :: jsval
  velocidad_internet :: jsval
  tipo_television :: jsval
  fecha_agendamiento :: jsval
  tramo_instalacion :: jsval
  rut_frontal_url :: jsval
  rut_posterior_url :: jsval
  factibilidad_url :: jsval
  otros_documentos_urls :: jsval
  fila_sheets :: nat

type_synonym db_error = jsstring

datatype effect =
    SheetsValuesGet jsstring
  | SheetsGet
  | SheetsAppendDimension nat nat
  | SheetsValuesBatchUpdate "(a1range \<times> cell) list"
  | DbSelectVendedor jsstring
  | DbSelectCodigo jsstring
  | DbInsertPedido pedido
  | ConsoleErrorSupabase db_error
  | ConsoleErrorCaught exn

text \<open>
  A computation either throws or returns, and has made some calls by then. \<open>bind\<close> is
  sequencing under \<open>try\<close>: what follows a throw does not run.
\<close>

type_synonym 'a io = "(exn + 'a) \<times> effect list"

definition ret :: "'a \<Rightarrow> 'a io" where
  "ret x = (Inr x, [])"

definition throw :: "exn \<Rightarrow> 'a io" where
  "throw e = (Inl e, [])"

definition call :: "effect \<Rightarrow> exn + 'a \<Rightarrow> 'a io" where
  "call eff outcome = (outcome, [eff])"

definition bind :: "'a io \<Rightarrow> ('a \<Rightarrow> 'b io) \<Rightarrow> 'b io" where
  "bind m f =
     (case m of
        (Inl e, t) \<Rightarrow> (Inl e, t)
      | (Inr x, t) \<Rightarrow> (case f x of (r, t') \<Rightarrow> (r, t @ t')))"

definition lift :: "exn + 'a \<Rightarrow> 'a io" where
  "lift r = (r, [])"

section \<open>The submission endpoint (api/submit-form.js)\<close>

text \<open>
  What the handler receives: the request, and the outside it talks to. The clock
  (\<open>formatTimestamp\<close>), the platform's case conversions and the answers of the
  spreadsheet API and of the relational store are the fields of \<open>world\<close>. A spreadsheet
  call may throw; a query of the relational store does not throw, it returns
  \<open>{data, error}\<close>.
\<close>

record request =
  req_method :: jsstring
  query_test :: "jsstring option"
  req_body :: jsobject

record sheet_props =
  title :: jsstring
  sheetId :: nat
  rowCount :: nat

record insert_result =
  ins_data :: "nat option"
  ins_error :: "db_error option"

record world =
  formatTimestamp :: jsstring
  toUpperCase :: "jsstring \<Rightarrow> jsstring"
  toLowerCase :: "jsstring \<Rightarrow> jsstring"
  values_get :: "exn + jsstring list list option"
  spreadsheets_get :: "exn + sheet_props list"
  batchUpdate :: "nat \<Rightarrow> exn + unit"
  values_batchUpdate :: "(a1range \<times> cell) list \<Rightarrow> exn + unit"
  select_vendedor :: "jsstring \<Rightarrow> nat option"
  select_codigo :: "jsstring \<Rightarrow> nat option"
  insert_pedido :: "pedido \<Rightarrow> insert_result"

text \<open>
  The responses the handler sends. \<open>Preflight\<close> is \<open>status(200).end()\<close>; the others are
  \<open>status(n).json({...})\<close> with the fields that vary as arguments. A \<open>pedidoId\<close> of \<open>None\<close>
  is \<open>undefined\<close>, which leaves the key out of the JSON sent.
\<close>

datatype response =
    Preflight
  | MethodNotAllowed
  | ValidationOk bool bool bool bool bool nat
  | SheetsOnly jsstring nat
  | SupabaseOnly "nat option" bool bool
  | Submitted jsstring "nat option"
  | ServerError exn

fun status :: "response \<Rightarrow> nat" where
  "status Preflight = 200"
| "status MethodNotAllowed = 405"
| "status (ValidationOk v c m r p n) = 200"
| "status (SheetsOnly ts fila) = 200"
| "status (SupabaseOnly pid v c) = 200"
| "status (Submitted ts pid) = 200"
| "status (ServerError e) = 500"

fun success :: "response \<Rightarrow> bool option" where
  "success Preflight = None"
| "success MethodNotAllowed = Some False"
| "success (ValidationOk v c m r p n) = Some True"
| "success (SheetsOnly ts fila) = Some True"
| "success (SupabaseOnly pid v c) = Some True"
| "success (Submitted ts pid) = Some True"
| "success (ServerError e) = Some False"

fun pedidoId :: "response \<Rightarrow> nat option" where
  "pedidoId (SupabaseOnly pid v c) = pid"
| "pedidoId (Submitted ts pid) = pid"
| "pedidoId r = None"

text \<open>\<open>req.query?.test || null\<close>: an empty parameter counts as none.\<close>

definition testMode_of :: "request \<Rightarrow> jsstring option" where
  "testMode_of req =
     (case query_test req of None \<Rightarrow> None | Some t \<Rightarrow> if t = [] then None else Some t)"

text \<open>The helpers \<open>toUpper\<close> and \<open>toLower\<close>: the empty string for a falsy value.\<close>

definition toUpper :: "world \<Rightarrow> jsval \<Rightarrow> jsstring" where
  "toUpper w v = (if truthy v then toUpperCase w (to_String v) else [])"

definition toLower :: "world \<Rightarrow> jsval \<Rightarrow> jsstring" where
  "toLower w v = (if truthy v then toLowerCase w (to_String v) else [])"

text \<open>\<open>[hasInternet, hasTelevision, hasTelefonia].filter(Boolean).length\<close>.\<close>

definition rgu_of :: "jsobject \<Rightarrow> nat" where
  "rgu_of fd =
     length (filter truthy
       [field fd ''hasInternet'', field fd ''hasTelevision'', field fd ''hasTelefonia''])"

text \<open>
  \<open>columnData\<close>, in the order of its keys. Building it throws when \<open>selectedAdicionales\<close>
  is neither nullish nor an array.
\<close>

definition columnData :: "world \<Rightarrow> jsobject \<Rightarrow> jsstring \<Rightarrow> exn + (jsstring \<times> cell) list" where
  "columnData w fd timestamp =
     (case opt_join (field fd ''selectedAdicionales'') of
        Inl e \<Rightarrow> Inl e
      | Inr adicionales \<Rightarrow> Inr
         [(js ''J'', CellStr (toUpper w (field fd ''comentarioVendedor''))),
          (js ''K'', CellStr (toUpper w (field fd ''selectedMarca''))),
          (js ''P'', CellStr (toUpper w (field fd ''selectedCodigo''))),
          (js ''Q'', CellStr timestamp),
          (js ''R'', CellStr (toUpper w (field fd ''selectedTipoVenta''))),
          (js ''S'', CellStr (toUpper w (field fd ''selectedSegmento''))),
          (js ''T'', CellStr (toUpper w (field fd ''tipoAgente''))),
          (js ''BC'', CellStr (toLower w (field fd ''emailEquipo''))),
          (js ''BE'', CellStr (toUpper w (field fd ''selectedVendedor''))),
          (js ''AN'', CellStr (toUpper w (field fd ''rut''))),
          (js ''AO'', CellStr (toUpper w (JStr
             (to_String (field fd ''nombres'') @ js '' '' @ to_String (field fd ''apellidos''))))),
          (js ''AP'', CellStr (toUpper w (or_else (field fd ''rutEmpresa'') (JStr [])))),
          (js ''AQ'', CellStr (toUpper w (or_else (field fd ''nombreEmpresa'') (JStr [])))),
          (js ''AA'', CellStr (toUpper w (field fd ''region''))),
          (js ''AR'', CellStr (toUpper w (field fd ''comuna''))),
          (js ''AS'', CellStr (toUpper w (field fd ''direccion''))),
          (js ''AD'', CellStr (toUpper w (field fd ''numeroContacto''))),
          (js ''AT'', CellStr (toLower w (field fd ''email''))),
          (js ''AU'', CellStr (toUpper w (field fd ''selectedPlan''))),
          (js ''AG'', CellStr (toUpper w adicionales)),
          (js ''BA'', CellNum (rgu_of fd)),
          (js ''AI'', CellStr (toUpper w (field fd ''tipoCampana''))),
          (js ''AJ'', CellStr (urls_cell (field fd ''rutFrontalUrls''))),
          (js ''AK'', CellStr (urls_cell (field fd ''rutPosteriorUrls''))),
          (js ''AL'', CellStr (urls_cell (field fd ''factibilidadUrls''))),
          (js ''AM'', CellStr (urls_cell (field fd ''otrosDocumentosUrls'')))])"

text \<open>
  \<open>updates\<close>: one range per column, all in row \<open>nextRow\<close> of the tab \<open>Fijo_EBSA\<close>.
\<close>

definition updates_of :: "(jsstring \<times> cell) list \<Rightarrow> nat \<Rightarrow> (a1range \<times> cell) list" where
  "updates_of cols nextRow =
     map (\<lambda>(column, v). (\<lparr>a1_tab = js ''Fijo_EBSA'', a1_col = column, a1_row = nextRow\<rparr>, v)) cols"

text \<open>
  The test \<open>v && v.trim() && v !== " "\<close> on the seller name and the seller code. A truthy
  value that is not a string has no \<open>trim\<close>.
\<close>

fun non_blank :: "jsval \<Rightarrow> exn + bool" where
  "non_blank (JStr s) = Inr (s \<noteq> [] \<and> trim s \<noteq> [] \<and> s \<noteq> js '' '')"
| "non_blank (JBool b) = (if b then Inl TypeError else Inr False)"
| "non_blank (JArr xs) = Inl TypeError"
| "non_blank v = Inr False"

text \<open>
  The seller check: the name and the team go to the relational row only when the name is
  not blank and the query on \<open>vendedores\<close> returns a row. The result is
  \<open>(vendedorParaSupabase, equipoParaSupabase)\<close>.
\<close>

definition check_vendedor :: "world \<Rightarrow> jsobject \<Rightarrow> (jsval \<times> jsval) io" where
  "check_vendedor w fd =
     bind (lift (non_blank (field fd ''selectedVendedor''))) (\<lambda>filled.
       if filled
       then bind (call (DbSelectVendedor (to_String (field fd ''selectedVendedor'')))
                   (Inr (select_vendedor w (to_String (field fd ''selectedVendedor''))))) (\<lambda>vendedorExists.
              case vendedorExists of
                Some r \<Rightarrow> ret (field fd ''selectedVendedor'', field fd ''equipo'')
              | None \<Rightarrow> ret (JNull, JNull))
       else ret (JNull, JNull))"

definition check_codigo :: "world \<Rightarrow> jsobject \<Rightarrow> jsval io" where
  "check_codigo w fd =
     bind (lift (non_blank (field fd ''selectedCodigo''))) (\<lambda>filled.
       if filled
       then bind (call (DbSelectCodigo (to_String (field fd ''selectedCodigo'')))
                   (Inr (select_codigo w (to_String (field fd ''selectedCodigo''))))) (\<lambda>codigoExists.
              case codigoExists of
                Some r \<Rightarrow> ret (field fd ''selectedCodigo'')
              | None \<Rightarrow> ret JNull)
       else ret JNull)"

text \<open>The object given to \<open>insert\<close>.\<close>

definition pedido_of ::
  "jsobject \<Rightarrow> jsval \<Rightarrow> jsval \<Rightarrow> jsval \<Rightarrow> jsval \<Rightarrow> nat \<Rightarrow> nat \<Rightarrow> pedido" where
  "pedido_of fd vendedorParaSupabase codigoParaSupabase equipoParaSupabase adicionales rgu' nextRow =
     \<lparr>observacion_vendedor = field fd ''comentarioVendedor'',
      marca = field fd ''selectedMarca'',
      codigo_vendedor = codigoParaSupabase,
      tipo_venta = field fd ''selectedTipoVenta'',
      segmento = field fd ''selectedSegmento'',
      tipo_agente = field fd ''tipoAgente'',
      equipo_id = equipoParaSupabase,
      vendedor_id = vendedorParaSupabase,
      rut = field fd ''rut'',
      nombres = field fd ''nombres'',
      apellidos = field fd ''apellidos'',
      rut_empresa = or_else (field fd ''rutEmpresa'') JNull,
      nombre_empresa = or_else (field fd ''nombreEmpresa'') JNull,
      region = field fd ''region'',
      comuna = field fd ''comuna'',
      direccion = field fd ''direccion'',
      numero_contacto = field fd ''numeroContacto'',
      email = field fd ''email'',
      plan = field fd ''selectedPlan'',
      productos_adicionales = or_else adicionales JNull,
      rgu = rgu',
      tiene_internet = or_else (field fd ''hasInternet'') (JBool False),
      tiene_television = or_else (field fd ''hasTelevision'') (JBool False),
      tiene_telefonia = or_else (field fd ''hasTelefonia'') (JBool False),
      velocidad_internet = or_else (field fd ''velocidadInternet'') JNull,
      tipo_television = or_else (field fd ''tipoTelevision'') JNull,
      fecha_agendamiento = or_else (field fd ''fechaAgendamiento'') JNull,
      tramo_instalacion = or_else (field fd ''tramoInstalacion'') JNull,
      rut_frontal_url = urls_or_null (field fd ''rutFrontalUrls''),
      rut_posterior_url = urls_or_null (field fd ''rutPosteriorUrls''),
      factibilidad_url = urls_or_null (field fd ''factibilidadUrls''),
      otros_documentos_urls = urls_or_null (field fd ''otrosDocumentosUrls''),
      fila_sheets = nextRow\<rparr>"

text \<open>
  Phase 3: the insert into \<open>pedidos\<close>. An error of the store is logged and the request
  goes on with \<open>pedido = null\<close>; otherwise \<open>pedido\<close> is the returned row, whose \<open>id\<close> is
  read at once. The result is \<open>pedido?.id\<close>.
\<close>

definition save_pedido ::
  "world \<Rightarrow> jsobject \<Rightarrow> jsstring option \<Rightarrow> jsval \<Rightarrow> jsval \<Rightarrow> jsval \<Rightarrow> nat \<Rightarrow> nat option io" where
  "save_pedido w fd testMode vendedorParaSupabase codigoParaSupabase equipoParaSupabase nextRow =
     (if testMode \<noteq> Some (js ''sheets'')
      then bind (lift (opt_join (field fd ''selectedAdicionales''))) (\<lambda>adicionales.
           let p = pedido_of fd vendedorParaSupabase codigoParaSupabase equipoParaSupabase
                     adicionales (rgu_of fd) nextRow
           in bind (call (DbInsertPedido p) (Inr (insert_pedido w p))) (\<lambda>res.
                case ins_error res of
                  Some supabaseError \<Rightarrow>
                    bind (call (ConsoleErrorSupabase supabaseError) (Inr ())) (\<lambda>u. ret None)
                | None \<Rightarrow>
                    (case ins_data res of
                       None \<Rightarrow> throw TypeError
                     | Some pid \<Rightarrow> ret (Some pid))))
      else ret None)"

text \<open>
  Phase 2 and what precedes it: read column Q, read the sheet's metadata, append one row
  to the tab \<open>Fijo_EBSA\<close> when the metadata has such a tab, and write the cells, unless
  the mode is \<open>test=supabase\<close>. The result is \<open>nextRow\<close>.
\<close>

definition save_sheets :: "world \<Rightarrow> jsstring option \<Rightarrow> (jsstring \<times> cell) list \<Rightarrow> nat io" where
  "save_sheets w testMode cols =
     bind (call (SheetsValuesGet (js ''Fijo_EBSA!Q:Q'')) (values_get w)) (\<lambda>values.
     let rows = (case values of None \<Rightarrow> [] | Some vs \<Rightarrow> vs);
         nextRow = length rows + 1
     in bind (call SheetsGet (spreadsheets_get w)) (\<lambda>sheets.
        bind (case find (\<lambda>sheet. title sheet = js ''Fijo_EBSA'') sheets of
                Some fijoSheet \<Rightarrow>
                  call (SheetsAppendDimension (sheetId fijoSheet) 1) (batchUpdate w (sheetId fijoSheet))
              | None \<Rightarrow> ret ()) (\<lambda>u.
        bind (if testMode \<noteq> Some (js ''supabase'')
              then call (SheetsValuesBatchUpdate (updates_of cols nextRow))
                     (values_batchUpdate w (updates_of cols nextRow))
              else ret ()) (\<lambda>u'. ret nextRow))))"

text \<open>The body of the \<open>try\<close> block.\<close>

definition try_block :: "world \<Rightarrow> request \<Rightarrow> response io" where
  "try_block w req =
     (let formData = req_body req;
          testMode = testMode_of req
      in if testMode = Some (js ''validation'')
         then ret (ValidationOk
                (truthy (field formData ''selectedVendedor''))
                (truthy (field formData ''selectedCodigo''))
                (truthy (field formData ''selectedMarca''))
                (truthy (field formData ''rut''))
                (truthy (field formData ''selectedPlan''))
                (keys_length formData))
         else
           let timestamp = formatTimestamp w
           in bind (lift (columnData w formData timestamp)) (\<lambda>cols.
              bind (save_sheets w testMode cols) (\<lambda>nextRow.
              if testMode = Some (js ''sheets'')
              then ret (SheetsOnly timestamp nextRow)
              else
                bind (check_vendedor w formData) (\<lambda>(vendedorParaSupabase, equipoParaSupabase).
                bind (check_codigo w formData) (\<lambda>codigoParaSupabase.
                bind (save_pedido w formData testMode vendedorParaSupabase codigoParaSupabase
                        equipoParaSupabase nextRow) (\<lambda>pid.
                if testMode = Some (js ''supabase'')
                then ret (SupabaseOnly pid (truthy vendedorParaSupabase) (truthy codigoParaSupabase))
                else ret (Submitted timestamp pid)))))))"

text \<open>
  The handler: the preflight and the method check, then the \<open>try\<close> block; an exception is
  logged and answered with a 500. The result is the response and the calls made.
\<close>

definition handler :: "world \<Rightarrow> request \<Rightarrow> response \<times> effect list" where
  "handler w req =
     (if req_method req = js ''OPTIONS'' then (Preflight, [])
      else if req_method req \<noteq> js ''POST'' then (MethodNotAllowed, [])
      else case try_block w req of
             (Inr res, calls) \<Rightarrow> (res, calls)
           | (Inl e, calls) \<Rightarrow> (ServerError e, calls @ [ConsoleErrorCaught e]))"

text \<open>Classes of calls: those to the spreadsheet API, and particular ones.\<close>

fun is_sheets_call :: "effect \<Rightarrow> bool" where
  "is_sheets_call (SheetsValuesGet r) = True"
| "is_sheets_call SheetsGet = True"
| "is_sheets_call (SheetsAppendDimension sid n) = True"
| "is_sheets_call (SheetsValuesBatchUpdate us) = True"
| "is_sheets_call e = False"


fun is_append :: "effect \<Rightarrow> bool" where
  "is_append (SheetsAppendDimension sid n) = True"
| "is_append e = False"


text \<open>
  The entries read from column Q: \<open>response.data.values || []\<close>, when the read succeeds.
\<close>

definition rows_read :: "world \<Rightarrow> jsstring list list" where
  "rows_read w = (case values_get w of Inr (Some vs) \<Rightarrow> vs | _ \<Rightarrow> [])"

text \<open>
  Whether the tab \<open>Fijo_EBSA\<close> already has a row numbered \<open>nextRow\<close>: its \<open>rowCount\<close> is at
  least the number of entries read from column Q plus one.
\<close>

definition has_room :: "world \<Rightarrow> bool" where
  "has_room w =
     (case spreadsheets_get w of
        Inr sheets \<Rightarrow>
          (case find (\<lambda>sheet. title sheet = js ''Fijo_EBSA'') sheets of
             Some fijoSheet \<Rightarrow> length (rows_read w) + 1 \<le> rowCount fijoSheet
           | None \<Rightarrow> False)
      | Inl e \<Rightarrow> False)"

subsection \<open>A sample submission\<close>

text \<open>
  A residential order with RUT 12345678-9, the plan Fibra Hogar and one add-on, sent to a
  sheet of 1000 rows whose column Q holds two entries, and to a store that knows the
  seller Ana Soto. All its text is ASCII, so the case conversions are those of Basic
  Latin. In \<open>failing_store\<close> the insert into \<open>pedidos\<close> is refused.
\<close>

definition sample_world :: world where
  "sample_world =
     \<lparr>formatTimestamp = js ''27/10/2025 14:30:45'',
      toUpperCase = toUpperCase_latin,
      toLowerCase = toLowerCase_latin,
      values_get = Inr (Some [[js ''Marca temporal''], [js ''26/10/2025 10:00:00'']]),
      spreadsheets_get = Inr [\<lparr>title = js ''Fijo_EBSA'', sheetId = 7, rowCount = 1000\<rparr>],
      batchUpdate = (\<lambda>sid. Inr ()),
      values_batchUpdate = (\<lambda>us. Inr ()),
      select_vendedor = (\<lambda>n. if n = js ''Ana Soto'' then Some 3 else None),
      select_codigo = (\<lambda>n. None),
      insert_pedido = (\<lambda>p. \<lparr>ins_data = Some 41, ins_error = None\<rparr>)\<rparr>"

definition failing_store :: world where
  "failing_store =
     sample_world\<lparr>insert_pedido := (\<lambda>p. \<lparr>ins_data = None, ins_error = Some (js ''23502'')\<rparr>)\<rparr>"

definition sample_body :: jsobject where
  "sample_body =
     [(js ''selectedVendedor'', JStr (js ''Ana Soto'')),
      (js ''equipo'', JStr (js ''Norte'')),
      (js ''selectedSegmento'', JStr (js ''residencial'')),
      (js ''rut'', JStr (js ''12345678-9'')),
      (js ''selectedPlan'', JStr (js ''Fibra Hogar'')),
      (js ''hasInternet'', JBool True),
      (js ''hasTelevision'', JBool False),
      (js ''hasTelefonia'', JBool False),
      (js ''selectedAdicionales'', JArr [js ''Deco'']),
      (js ''rutFrontalUrls'', JArr [])]"

definition sample_request :: request where
  "sample_request = \<lparr>req_method = js ''POST'', query_test = None, req_body = sample_body\<rparr>"

definition validation_request :: request where
  "validation_request = sample_request\<lparr>query_test := Some (js ''validation'')\<rparr>"

definition sample_columns :: "(jsstring \<times> cell) list" where
  "sample_columns =
     [(js ''J'', CellStr []),
      (js ''K'', CellStr []),
      (js ''P'', CellStr []),
      (js ''Q'', CellStr (js ''27/10/2025 14:30:45'')),
      (js ''R'', CellStr []),
      (js ''S'', CellStr (js ''RESIDENCIAL'')),
      (js ''T'', CellStr []),
      (js ''BC'', CellStr []),
      (js ''BE'', CellStr (js ''ANA SOTO'')),
      (js ''AN'', CellStr (js ''12345678-9'')),
      (js ''AO'', CellStr (js ''UNDEFINED UNDEFINED'')),
      (js ''AP'', CellStr []),
      (js ''AQ'', CellStr []),
      (js ''AA'', CellStr []),
      (js ''AR'', CellStr []),
      (js ''AS'', CellStr []),
      (js ''AD'', CellStr []),
      (js ''AT'', CellStr []),
      (js ''AU'', CellStr (js ''FIBRA HOGAR'')),
      (js ''AG'', CellStr (js ''DECO'')),
      (js ''BA'', CellNum 1),
      (js ''AI'', CellStr []),
      (js ''AJ'', CellStr []),
      (js ''AK'', CellStr []),
      (js ''AL'', CellStr []),
      (js ''AM'', CellStr [])]"


definition sample_pedido :: pedido where
  "sample_pedido =
     pedido_of sample_body (JStr (js ''Ana Soto'')) JNull (JStr (js ''Norte''))
       (JStr (js ''Deco'')) 1 3"

section \<open>Properties of the validators\<close>

lemma slice_prefix: "0 \<le> n \<Longrightarrow> slice s 0 (Some n) = take (nat n) s"
  by (auto simp: slice_def rel_index_def Let_def min_def)

lemma nat_int_pred: "nat (int n - 1) = n - 1"
  by arith

lemma slice_butlast: "slice s 0 (Some (- 1)) = butlast s"
  by (cases "s = []")
    (auto simp: slice_def rel_index_def Let_def butlast_conv_take max_def nat_int_pred)

lemma slice_last: "s \<noteq> [] \<Longrightarrow> slice s (- 1) None = [last s]"
proof -
  assume ne: "s \<noteq> []"
  then have len: "length s \<ge> 1" by (cases s) auto
  have "slice s (- 1) None = drop (length s - 1) s"
    using len by (auto simp: slice_def rel_index_def Let_def max_def nat_int_pred)
  also have "\<dots> = [last s]"
    using ne by (metis append_butlast_last_id append_eq_conv_conj length_butlast)
  finally show ?thesis .
qed

lemma regex_test_single:
  "regex_test ((cls, 1, 1) # ps) s = (\<exists>x xs. s = x # xs \<and> cls x \<and> regex_test ps xs)"
  by (cases s) auto

lemma cleaned_low: "list_all is_low_rut (toLowerCase_latin (filter is_rut_char v))"
  by (induction v) (auto simp: toLowerCase_latin_def is_rut_char_def is_low_rut_def is_digit_def)

lemma low_fixed: "list_all is_low_rut t \<Longrightarrow> toLowerCase_latin (filter is_rut_char t) = t"
  by (induction t) (auto simp: toLowerCase_latin_def is_rut_char_def is_low_rut_def is_digit_def)

lemma hyphen_dropped:
  "toLowerCase_latin (filter is_rut_char (a @ js ''-'' @ b)) =
   toLowerCase_latin (filter is_rut_char (a @ b))"
  by (simp add: toLowerCase_latin_def is_rut_char_def is_digit_def)

lemma formatRut_idem: "formatRut (formatRut v) = formatRut v"
proof -
  define c where "c = toLowerCase_latin (filter is_rut_char v)"
  have low: "list_all is_low_rut c" unfolding c_def by (rule cleaned_low)
  show ?thesis
  proof (cases "length c > 1")
    case True
    then have ne: "c \<noteq> []" by auto
    have f: "formatRut v = butlast c @ js ''-'' @ [last c]"
      using True ne by (simp add: formatRut_def c_def [symmetric] Let_def slice_butlast slice_last)
    have "toLowerCase_latin (filter is_rut_char (butlast c @ js ''-'' @ [last c])) =
          toLowerCase_latin (filter is_rut_char (butlast c @ [last c]))"
      by (rule hyphen_dropped)
    also have "\<dots> = c" using ne low by (simp add: low_fixed)
    finally have cl: "toLowerCase_latin (filter is_rut_char (formatRut v)) = c" by (simp only: f)
    show ?thesis
      unfolding formatRut_def [of "formatRut v"] cl
      using f True ne by (simp add: Let_def slice_butlast slice_last)
  next
    case False
    then have f: "formatRut v = c" by (simp add: formatRut_def c_def [symmetric] Let_def)
    have cl: "toLowerCase_latin (filter is_rut_char c) = c" using low by (rule low_fixed)
    show ?thesis
      unfolding f using False by (simp add: formatRut_def cl Let_def)
  qed
qed

lemma formatPhone_idem: "formatPhone (formatPhone v) = formatPhone v"
proof -
  have "filter is_digit (take 9 (filter is_digit v)) = take 9 (filter is_digit v)"
    by (rule filter_True) (auto dest: in_set_takeD)
  then show ?thesis by (simp add: formatPhone_def slice_prefix)
qed

lemma formatAddress_idem: "formatAddress (formatAddress v) = formatAddress v"
  by (simp add: formatAddress_def)

text \<open>
  C8. The three formatters are idempotent: formatting an already formatted RUT, phone
  number or address gives it back unchanged, for every input string.
\<close>

theorem formatters_idempotent:
  "formatRut (formatRut v) = formatRut v \<and>
   formatPhone (formatPhone v) = formatPhone v \<and>
   formatAddress (formatAddress v) = formatAddress v"
  by (simp add: formatRut_idem formatPhone_idem formatAddress_idem)

lemma tail_shape:
  "regex_test [(is_hyphen, 1, 1), (is_dv, 1, 1)] t = (\<exists>dv. t = js ''-'' @ [dv] \<and> is_dv dv)"
proof -
  have "regex_test [(is_hyphen, 1, 1), (is_dv, 1, 1)] t =
        (\<exists>x xs. t = x # xs \<and> is_hyphen x \<and> (\<exists>y ys. xs = y # ys \<and> is_dv y \<and> ys = []))"
    by (simp only: regex_test_single regex_test.simps(1))
  then show ?thesis by (auto simp: is_hyphen_def)
qed

lemma head_range:
  "regex_test ((cls, 7, 8) # ps) s =
     ((7 \<le> length s \<and> list_all cls (take 7 s) \<and> regex_test ps (drop 7 s)) \<or>
      (8 \<le> length s \<and> list_all cls (take 8 s) \<and> regex_test ps (drop 8 s)))"
  by (simp add: upt_rec [of 7] upt_rec [of 8])

text \<open>
  C3. \<open>validateRut\<close> accepts a string exactly when it has the shape of a Chilean ID: seven
  or eight decimal digits, a hyphen, and one check character, which is a digit or the
  letter k in either case. Every other string is rejected. The check character is not
  recomputed from the digits: the validator looks at the shape only.
\<close>

theorem validateRut_shape:
  "validateRut s \<longleftrightarrow>
     (\<exists>body dv. s = body @ js ''-'' @ [dv] \<and> (length body = 7 \<or> length body = 8)
        \<and> list_all is_digit body \<and> is_dv dv)"
proof
  assume "validateRut s"
  then obtain n where n: "n = 7 \<or> n = 8" "n \<le> length s" "list_all is_digit (take n s)"
      "regex_test [(is_hyphen, 1, 1), (is_dv, 1, 1)] (drop n s)"
    unfolding validateRut_def rutRegex_def head_range by blast
  from n(4) obtain dv where dv: "drop n s = js ''-'' @ [dv]" "is_dv dv"
    unfolding tail_shape by blast
  have "s = take n s @ js ''-'' @ [dv]" using dv(1) by (metis append_take_drop_id)
  moreover have "length (take n s) = 7 \<or> length (take n s) = 8" using n(1,2) by auto
  ultimately show "\<exists>body dv. s = body @ js ''-'' @ [dv] \<and> (length body = 7 \<or> length body = 8)
        \<and> list_all is_digit body \<and> is_dv dv"
    using n(3) dv(2) by blast
next
  assume "\<exists>body dv. s = body @ js ''-'' @ [dv] \<and> (length body = 7 \<or> length body = 8)
        \<and> list_all is_digit body \<and> is_dv dv"
  then obtain body dv where h: "s = body @ js ''-'' @ [dv]" "length body = 7 \<or> length body = 8"
      "list_all is_digit body" "is_dv dv" by blast
  have t: "regex_test [(is_hyphen, 1, 1), (is_dv, 1, 1)] (js ''-'' @ [dv])"
    unfolding tail_shape using h(4) by blast
  from h(2) show "validateRut s"
  proof
    assume "length body = 7"
    then show ?thesis using h(1,3) t
      unfolding validateRut_def rutRegex_def head_range by simp
  next
    assume "length body = 8"
    then show ?thesis using h(1,3) t
      unfolding validateRut_def rutRegex_def head_range by simp
  qed
qed

section \<open>Properties of the submission endpoint\<close>

lemma bind_fst: "fst (bind m f) = (case fst m of Inl e \<Rightarrow> Inl e | Inr x \<Rightarrow> fst (f x))"
  by (auto simp: bind_def split: prod.splits sum.splits)

lemma bind_snd: "snd (bind m f) = snd m @ (case fst m of Inl e \<Rightarrow> [] | Inr x \<Rightarrow> snd (f x))"
  by (auto simp: bind_def split: prod.splits sum.splits)

lemma ret_fst [simp]: "fst (ret x) = Inr x" and ret_snd [simp]: "snd (ret x) = []"
  by (simp_all add: ret_def)

lemma lift_fst [simp]: "fst (lift r) = r" and lift_snd [simp]: "snd (lift r) = []"
  by (simp_all add: lift_def)

lemma call_fst [simp]: "fst (call eff r) = r" and call_snd [simp]: "snd (call eff r) = [eff]"
  by (simp_all add: call_def)

lemma throw_fst [simp]: "fst (throw e) = Inl e" and throw_snd [simp]: "snd (throw e) = []"
  by (simp_all add: throw_def)

subsection \<open>The spreadsheet phase\<close>

lemma save_sheets_fst:
  "fst (save_sheets w tm cols) = Inr n \<Longrightarrow> n = length (rows_read w) + 1"
  by (auto simp: save_sheets_def bind_fst rows_read_def Let_def
      split: sum.splits option.splits if_splits)

lemma save_sheets_no_insert: "DbInsertPedido p \<notin> set (snd (save_sheets w tm cols))"
  by (auto simp: save_sheets_def bind_snd Let_def split: sum.splits option.splits)

subsection \<open>The seller and code checks\<close>

lemma trim_empty_iff: "trim s = [] \<longleftrightarrow> list_all is_space s"
proof -
  define d where "d = dropWhile is_space s"
  have "d \<noteq> [] \<Longrightarrow> \<not> is_space (hd d)" unfolding d_def by (rule hd_dropWhile)
  then have "(\<forall>x\<in>set d. is_space x) \<longleftrightarrow> d = []" by (cases d) auto
  then have "trim s = [] \<longleftrightarrow> d = []"
    by (simp add: trim_def d_def [symmetric] dropWhile_eq_Nil_conv)
  then show ?thesis by (simp add: d_def dropWhile_eq_Nil_conv list_all_iff)
qed

lemma non_blank_JStr: "non_blank (JStr s) = Inr (\<not> list_all is_space s)"
proof -
  have "is_space 32" by (simp add: is_space_def)
  then have "\<not> list_all is_space s \<Longrightarrow> s \<noteq> js '' ''" by auto
  then show ?thesis by (auto simp: trim_empty_iff)
qed

lemma non_blank_True: "non_blank v = Inr True \<longleftrightarrow> (\<exists>s. v = JStr s \<and> \<not> list_all is_space s)"
  by (cases v) (auto simp: non_blank_JStr simp del: non_blank.simps(1))


lemma check_vendedor_no_insert: "DbInsertPedido p \<notin> set (snd (check_vendedor w fd))"
  by (auto simp: check_vendedor_def bind_snd split: sum.splits option.splits)

lemma check_codigo_no_insert: "DbInsertPedido p \<notin> set (snd (check_codigo w fd))"
  by (auto simp: check_codigo_def bind_snd split: sum.splits option.splits)

lemma check_vendedor_no_sheets: "filter is_sheets_call (snd (check_vendedor w fd)) = []"
  by (auto simp: check_vendedor_def bind_snd split: sum.splits option.splits)

lemma check_codigo_no_sheets: "filter is_sheets_call (snd (check_codigo w fd)) = []"
  by (auto simp: check_codigo_def bind_snd split: sum.splits option.splits)


lemma check_vendedor_filled:
  assumes "field fd ''selectedVendedor'' = JStr s" and "\<not> list_all is_space s"
  shows "fst (check_vendedor w fd) =
     Inr (case select_vendedor w s of Some r \<Rightarrow> (JStr s, field fd ''equipo'')
          | None \<Rightarrow> (JNull, JNull))"
  using assms
  by (simp add: check_vendedor_def bind_fst non_blank_JStr del: non_blank.simps(1)
      split: option.splits)

lemma check_vendedor_blank:
  assumes "non_blank (field fd ''selectedVendedor'') = Inr False"
  shows "fst (check_vendedor w fd) = Inr (JNull, JNull)"
  using assms by (simp add: check_vendedor_def bind_fst)

lemma check_vendedor_equipo:
  assumes "fst (check_vendedor w fd) = Inr (v, e)"
  shows "e = (if \<exists>s. field fd ''selectedVendedor'' = JStr s \<and> \<not> list_all is_space s
                     \<and> select_vendedor w s \<noteq> None
              then field fd ''equipo'' else JNull)"
proof -
  let ?x = "field fd ''selectedVendedor''"
  consider (err) x where "non_blank ?x = Inl x"
    | (filled) "non_blank ?x = Inr True" | (blank) "non_blank ?x = Inr False"
    by (cases "non_blank ?x") auto
  then show ?thesis
  proof cases
    case err
    then have "fst (check_vendedor w fd) = Inl x"
      by (simp add: check_vendedor_def bind_fst)
    then show ?thesis using assms by simp
  next
    case filled
    then obtain s where s: "?x = JStr s" "\<not> list_all is_space s"
      unfolding non_blank_True by blast
    have ex: "(\<exists>s'. ?x = JStr s' \<and> \<not> list_all is_space s'
                     \<and> select_vendedor w s' \<noteq> None) \<longleftrightarrow> select_vendedor w s \<noteq> None"
      using s by auto
    have "(v, e) = (case select_vendedor w s of Some r \<Rightarrow> (JStr s, field fd ''equipo'')
          | None \<Rightarrow> (JNull, JNull))"
      using assms check_vendedor_filled [OF s, of w] by simp
    then show ?thesis unfolding ex by (cases "select_vendedor w s") simp_all
  next
    case blank
    have "\<not> (\<exists>s. ?x = JStr s \<and> \<not> list_all is_space s)"
      using blank unfolding non_blank_True [symmetric] by simp
    then have nex: "\<not> (\<exists>s. ?x = JStr s \<and> \<not> list_all is_space s
                \<and> select_vendedor w s \<noteq> None)" by blast
    have "(v, e) = (JNull, JNull)"
      using assms check_vendedor_blank [OF blank, of w] by simp
    then have "e = JNull" by simp
    then show ?thesis using nex by (simp only: if_False)
  qed
qed

subsection \<open>The insert\<close>

lemma save_pedido_row:
  assumes "DbInsertPedido p \<in> set (snd (save_pedido w fd tm v c e n))"
  shows "\<exists>a. opt_join (field fd ''selectedAdicionales'') = Inr a
            \<and> p = pedido_of fd v c e a (rgu_of fd) n
            \<and> snd (save_pedido w fd tm v c e n) =
                DbInsertPedido p #
                  (case ins_error (insert_pedido w p) of None \<Rightarrow> []
                   | Some err \<Rightarrow> [ConsoleErrorSupabase err])
            \<and> fst (save_pedido w fd tm v c e n) =
                (case ins_error (insert_pedido w p) of
                   Some err \<Rightarrow> Inr None
                 | None \<Rightarrow> (case ins_data (insert_pedido w p) of
                      None \<Rightarrow> Inl TypeError | Some pid \<Rightarrow> Inr (Some pid)))"
proof -
  have tm: "tm \<noteq> Some (js ''sheets'')"
    using assms by (cases "tm = Some (js ''sheets'')") (simp_all add: save_pedido_def)
  obtain a where a: "opt_join (field fd ''selectedAdicionales'') = Inr a"
    using assms tm by (cases "opt_join (field fd ''selectedAdicionales'')")
      (simp_all add: save_pedido_def bind_snd)
  define q where "q = pedido_of fd v c e a (rgu_of fd) n"
  have sn: "snd (save_pedido w fd tm v c e n) =
      DbInsertPedido q # (case ins_error (insert_pedido w q) of None \<Rightarrow> []
                   | Some err \<Rightarrow> [ConsoleErrorSupabase err])"
    using tm a by (simp add: save_pedido_def bind_snd Let_def q_def [symmetric]
        split: option.splits)
  have fs: "fst (save_pedido w fd tm v c e n) =
      (case ins_error (insert_pedido w q) of
         Some err \<Rightarrow> Inr None
       | None \<Rightarrow> (case ins_data (insert_pedido w q) of
            None \<Rightarrow> Inl TypeError | Some pid \<Rightarrow> Inr (Some pid)))"
    using tm a by (simp add: save_pedido_def bind_fst Let_def q_def [symmetric]
        split: option.splits)
  have "DbInsertPedido p \<in> set (DbInsertPedido q #
        (case ins_error (insert_pedido w q) of None \<Rightarrow> [] | Some err \<Rightarrow> [ConsoleErrorSupabase err]))"
    using assms unfolding sn .
  then have "p = q" by (cases "ins_error (insert_pedido w q)") simp_all
  then show ?thesis using a sn fs unfolding q_def by blast
qed

subsection \<open>A run that reaches the insert\<close>

lemma insert_reached:
  assumes "DbInsertPedido p \<in> set (snd (try_block w req))"
  shows "\<exists>cols n v e c.
     testMode_of req \<noteq> Some (js ''validation'') \<and> testMode_of req \<noteq> Some (js ''sheets'')
     \<and> columnData w (req_body req) (formatTimestamp w) = Inr cols
     \<and> fst (save_sheets w (testMode_of req) cols) = Inr n
     \<and> fst (check_vendedor w (req_body req)) = Inr (v, e)
     \<and> fst (check_codigo w (req_body req)) = Inr c
     \<and> DbInsertPedido p \<in> set (snd (save_pedido w (req_body req) (testMode_of req) v c e n))
     \<and> snd (try_block w req) =
          snd (save_sheets w (testMode_of req) cols) @ snd (check_vendedor w (req_body req))
          @ snd (check_codigo w (req_body req))
          @ snd (save_pedido w (req_body req) (testMode_of req) v c e n)
     \<and> fst (try_block w req) =
          (case fst (save_pedido w (req_body req) (testMode_of req) v c e n) of
             Inl x \<Rightarrow> Inl x
           | Inr pid \<Rightarrow> Inr (if testMode_of req = Some (js ''supabase'')
                             then SupabaseOnly pid (truthy v) (truthy c)
                             else Submitted (formatTimestamp w) pid))"
proof -
  let ?fd = "req_body req" and ?tm = "testMode_of req"
  have nv: "?tm \<noteq> Some (js ''validation'')"
    using assms by (auto simp: try_block_def Let_def)
  obtain cols where cols: "columnData w ?fd (formatTimestamp w) = Inr cols"
    using assms nv by (cases "columnData w ?fd (formatTimestamp w)")
      (auto simp: try_block_def Let_def bind_snd)
  obtain n where n: "fst (save_sheets w ?tm cols) = Inr n"
    using assms nv cols save_sheets_no_insert [of p w ?tm cols]
    by (cases "fst (save_sheets w ?tm cols)") (auto simp: try_block_def Let_def bind_snd)
  have ns: "?tm \<noteq> Some (js ''sheets'')"
    using assms nv cols n save_sheets_no_insert [of p w ?tm cols]
    by (auto simp: try_block_def Let_def bind_snd)
  obtain v e where ve: "fst (check_vendedor w ?fd) = Inr (v, e)"
    using assms nv cols n ns save_sheets_no_insert [of p w ?tm cols]
      check_vendedor_no_insert [of p w ?fd]
    by (cases "fst (check_vendedor w ?fd)") (auto simp: try_block_def Let_def bind_snd)
  obtain c where c: "fst (check_codigo w ?fd) = Inr c"
    using assms nv cols n ns ve save_sheets_no_insert [of p w ?tm cols]
      check_vendedor_no_insert [of p w ?fd] check_codigo_no_insert [of p w ?fd]
    by (cases "fst (check_codigo w ?fd)") (auto simp: try_block_def Let_def bind_snd)
  have tr: "snd (try_block w req) =
          snd (save_sheets w ?tm cols) @ snd (check_vendedor w ?fd) @ snd (check_codigo w ?fd)
          @ snd (save_pedido w ?fd ?tm v c e n)"
    using nv cols n ns ve c
    by (auto simp: try_block_def Let_def bind_snd split: sum.splits)
  have rs: "fst (try_block w req) =
          (case fst (save_pedido w ?fd ?tm v c e n) of
             Inl x \<Rightarrow> Inl x
           | Inr pid \<Rightarrow> Inr (if ?tm = Some (js ''supabase'')
                             then SupabaseOnly pid (truthy v) (truthy c)
                             else Submitted (formatTimestamp w) pid))"
    using nv cols n ns ve c
    by (auto simp: try_block_def Let_def bind_fst split: sum.splits)
  have "DbInsertPedido p \<in> set (snd (save_pedido w ?fd ?tm v c e n))"
    using assms tr save_sheets_no_insert [of p w ?tm cols]
      check_vendedor_no_insert [of p w ?fd] check_codigo_no_insert [of p w ?fd]
    by auto
  then show ?thesis using nv ns cols n ve c tr rs by blast
qed

lemma handler_calls:
  "snd (handler w req) = [] \<or> snd (handler w req) = snd (try_block w req)
   \<or> (\<exists>x. fst (try_block w req) = Inl x \<and> snd (handler w req) = snd (try_block w req) @ [ConsoleErrorCaught x])"
  by (auto simp: handler_def split: prod.splits sum.splits)

lemma handler_insert:
  "DbInsertPedido p \<in> set (snd (handler w req)) \<Longrightarrow> DbInsertPedido p \<in> set (snd (try_block w req))"
  using handler_calls [of w req] by auto

subsection \<open>The shape of a run that writes to the sheet\<close>

lemma save_sheets_shape:
  assumes "SheetsValuesBatchUpdate ups \<in> set (snd (save_sheets w tm cols))"
  shows "\<exists>sheets. spreadsheets_get w = Inr sheets
     \<and> ups = updates_of cols (length (rows_read w) + 1)
     \<and> tm \<noteq> Some (js ''supabase'')
     \<and> snd (save_sheets w tm cols) =
          [SheetsValuesGet (js ''Fijo_EBSA!Q:Q''), SheetsGet]
          @ (case find (\<lambda>sheet. title sheet = js ''Fijo_EBSA'') sheets of
               Some fijoSheet \<Rightarrow> [SheetsAppendDimension (sheetId fijoSheet) 1]
             | None \<Rightarrow> [])
          @ [SheetsValuesBatchUpdate ups]
     \<and> fst (save_sheets w tm cols) =
          (case values_batchUpdate w ups of Inl x \<Rightarrow> Inl x
           | Inr u \<Rightarrow> Inr (length (rows_read w) + 1))"
proof -
  obtain vals where v: "values_get w = Inr vals"
    using assms by (cases "values_get w") (auto simp: save_sheets_def bind_snd)
  have rr: "(case vals of None \<Rightarrow> [] | Some vs \<Rightarrow> vs) = rows_read w"
    using v by (simp add: rows_read_def split: option.splits)
  obtain sheets where s: "spreadsheets_get w = Inr sheets"
    using assms v by (cases "spreadsheets_get w") (auto simp: save_sheets_def bind_snd Let_def)
  let ?found = "find (\<lambda>sheet. title sheet = js ''Fijo_EBSA'') sheets"
  have ap: "(case ?found of Some fijoSheet \<Rightarrow> batchUpdate w (sheetId fijoSheet) | None \<Rightarrow> Inr ()) = Inr ()"
    using assms v s
    by (cases ?found; cases "batchUpdate w (sheetId (the ?found))")
       (auto simp: save_sheets_def bind_snd Let_def)
  have tm: "tm \<noteq> Some (js ''supabase'')"
    using assms v s by (auto simp: save_sheets_def bind_snd Let_def split: option.splits sum.splits)
  have sn: "snd (save_sheets w tm cols) =
          [SheetsValuesGet (js ''Fijo_EBSA!Q:Q''), SheetsGet]
          @ (case ?found of Some fijoSheet \<Rightarrow> [SheetsAppendDimension (sheetId fijoSheet) 1] | None \<Rightarrow> [])
          @ [SheetsValuesBatchUpdate (updates_of cols (length (rows_read w) + 1))]"
    using v s ap tm rr
    by (cases ?found) (simp_all add: save_sheets_def bind_snd bind_fst Let_def split: sum.splits)
  have fs: "fst (save_sheets w tm cols) =
          (case values_batchUpdate w (updates_of cols (length (rows_read w) + 1)) of Inl x \<Rightarrow> Inl x
           | Inr u \<Rightarrow> Inr (length (rows_read w) + 1))"
    using v s ap tm rr
    by (cases ?found) (simp_all add: save_sheets_def bind_fst Let_def split: sum.splits)
  have "ups = updates_of cols (length (rows_read w) + 1)"
    using assms unfolding sn by (cases ?found) auto
  then show ?thesis using s tm sn fs by simp
qed

lemma save_sheets_written:
  assumes "fst (save_sheets w tm cols) = Inr n" and "tm \<noteq> Some (js ''supabase'')"
  shows "SheetsValuesBatchUpdate (updates_of cols n) \<in> set (snd (save_sheets w tm cols))"
  using assms
  by (auto simp: save_sheets_def bind_fst bind_snd Let_def rows_read_def
      split: sum.splits option.splits if_splits)




lemma save_pedido_no_sheets: "filter is_sheets_call (snd (save_pedido w fd tm v c e n)) = []"
proof (cases "tm \<noteq> Some (js ''sheets'')")
  case True
  then show ?thesis
    by (cases "opt_join (field fd ''selectedAdicionales'')")
       (simp_all add: save_pedido_def bind_snd Let_def split: option.splits)
next
  case False
  then show ?thesis by (simp add: save_pedido_def)
qed

lemma try_block_shape:
  "snd (try_block w req) = [] \<or>
   (\<exists>cols post. columnData w (req_body req) (formatTimestamp w) = Inr cols
      \<and> snd (try_block w req) = snd (save_sheets w (testMode_of req) cols) @ post
      \<and> filter is_sheets_call post = [])"
proof (cases "testMode_of req = Some (js ''validation'')")
  case True
  then show ?thesis by (simp add: try_block_def Let_def)
next
  case nv: False
  show ?thesis
  proof (cases "columnData w (req_body req) (formatTimestamp w)")
    case (Inl x)
    then show ?thesis using nv by (simp add: try_block_def bind_snd Let_def)
  next
    case (Inr cols)
    let ?fd = "req_body req" and ?tm = "testMode_of req"
    define post where "post = (case fst (save_sheets w ?tm cols) of Inl x \<Rightarrow> []
       | Inr n \<Rightarrow> if ?tm = Some (js ''sheets'') then [] else
           snd (check_vendedor w ?fd) @ (case fst (check_vendedor w ?fd) of Inl x \<Rightarrow> []
           | Inr ve \<Rightarrow> snd (check_codigo w ?fd) @ (case fst (check_codigo w ?fd) of Inl x \<Rightarrow> []
             | Inr c \<Rightarrow> snd (save_pedido w ?fd ?tm (fst ve) c (snd ve) n))))"
    have tr: "snd (try_block w req) = snd (save_sheets w ?tm cols) @ post"
      using nv Inr unfolding post_def
      by (simp add: try_block_def Let_def bind_snd case_prod_beta split: sum.splits)
    have "filter is_sheets_call post = []"
      unfolding post_def
      by (simp add: check_vendedor_no_sheets check_codigo_no_sheets save_pedido_no_sheets
          split: sum.splits)
    then show ?thesis using Inr tr by blast
  qed
qed

lemma tail_has_no_update:
  "filter is_sheets_call post = [] \<Longrightarrow> SheetsValuesBatchUpdate ups \<notin> set post"
  by (induction post) (auto split: if_splits)

lemma handler_shape:
  assumes "SheetsValuesBatchUpdate ups \<in> set (snd (handler w req))"
  shows "\<exists>sheets cols post.
       spreadsheets_get w = Inr sheets
     \<and> columnData w (req_body req) (formatTimestamp w) = Inr cols
     \<and> ups = updates_of cols (length (rows_read w) + 1)
     \<and> testMode_of req \<noteq> Some (js ''supabase'')
     \<and> snd (handler w req) =
          [SheetsValuesGet (js ''Fijo_EBSA!Q:Q''), SheetsGet]
          @ (case find (\<lambda>sheet. title sheet = js ''Fijo_EBSA'') sheets of
               Some fijoSheet \<Rightarrow> [SheetsAppendDimension (sheetId fijoSheet) 1]
             | None \<Rightarrow> [])
          @ [SheetsValuesBatchUpdate ups] @ post
     \<and> filter is_sheets_call post = []"
proof -
  have tb: "SheetsValuesBatchUpdate ups \<in> set (snd (try_block w req))"
    using assms handler_calls [of w req] by auto
  then obtain cols post where c: "columnData w (req_body req) (formatTimestamp w) = Inr cols"
      "snd (try_block w req) = snd (save_sheets w (testMode_of req) cols) @ post"
      "filter is_sheets_call post = []"
    using try_block_shape [of w req] by auto
  have "SheetsValuesBatchUpdate ups \<in> set (snd (save_sheets w (testMode_of req) cols))"
    using tb c(2) tail_has_no_update [OF c(3), of ups] by auto
  from save_sheets_shape [OF this] obtain sheets where s: "spreadsheets_get w = Inr sheets"
     "ups = updates_of cols (length (rows_read w) + 1)"
     "testMode_of req \<noteq> Some (js ''supabase'')"
     "snd (save_sheets w (testMode_of req) cols) =
          [SheetsValuesGet (js ''Fijo_EBSA!Q:Q''), SheetsGet]
          @ (case find (\<lambda>sheet. title sheet = js ''Fijo_EBSA'') sheets of
               Some fijoSheet \<Rightarrow> [SheetsAppendDimension (sheetId fijoSheet) 1]
             | None \<Rightarrow> [])
          @ [SheetsValuesBatchUpdate ups]"
    by blast
  from handler_calls [of w req] consider
      (a) "snd (handler w req) = []" | (b) "snd (handler w req) = snd (try_block w req)"
    | (c) x where "snd (handler w req) = snd (try_block w req) @ [ConsoleErrorCaught x]"
    by blast
  then show ?thesis
  proof cases
    case a
    then show ?thesis using assms by simp
  next
    case b
    then show ?thesis using s c by auto
  next
    case (c x)
    have "filter is_sheets_call (post @ [ConsoleErrorCaught x]) = []" using \<open>filter is_sheets_call post = []\<close> by simp
    moreover have "snd (handler w req) =
          [SheetsValuesGet (js ''Fijo_EBSA!Q:Q''), SheetsGet]
          @ (case find (\<lambda>sheet. title sheet = js ''Fijo_EBSA'') sheets of
               Some fijoSheet \<Rightarrow> [SheetsAppendDimension (sheetId fijoSheet) 1]
             | None \<Rightarrow> [])
          @ [SheetsValuesBatchUpdate ups] @ (post @ [ConsoleErrorCaught x])"
      using c s(4) \<open>snd (try_block w req) = snd (save_sheets w (testMode_of req) cols) @ post\<close> by simp
    ultimately show ?thesis using s(1,2,3) \<open>columnData w (req_body req) (formatTimestamp w) = Inr cols\<close> by blast
  qed
qed

subsection \<open>The sample submission, run\<close>

lemma sample_fields:
  "field sample_body ''selectedVendedor'' = JStr (js ''Ana Soto'')"
  "field sample_body ''selectedCodigo'' = JUndefined"
  "field sample_body ''selectedMarca'' = JUndefined"
  "field sample_body ''equipo'' = JStr (js ''Norte'')"
  "field sample_body ''rut'' = JStr (js ''12345678-9'')"
  "field sample_body ''selectedPlan'' = JStr (js ''Fibra Hogar'')"
  "field sample_body ''selectedAdicionales'' = JArr [js ''Deco'']"
  "field sample_body ''hasInternet'' = JBool True"
  "field sample_body ''hasTelevision'' = JBool False"
  "field sample_body ''hasTelefonia'' = JBool False"
  by (simp_all add: field_def sample_body_def)

lemma sample_world_sel:
  "formatTimestamp sample_world = js ''27/10/2025 14:30:45''"
  "toUpperCase sample_world = toUpperCase_latin"
  "toLowerCase sample_world = toLowerCase_latin"
  "values_get sample_world = Inr (Some [[js ''Marca temporal''], [js ''26/10/2025 10:00:00'']])"
  "spreadsheets_get sample_world = Inr [\<lparr>title = js ''Fijo_EBSA'', sheetId = 7, rowCount = 1000\<rparr>]"
  "batchUpdate sample_world = (\<lambda>sid. Inr ())"
  "values_batchUpdate sample_world = (\<lambda>us. Inr ())"
  "select_vendedor sample_world = (\<lambda>n. if n = js ''Ana Soto'' then Some 3 else None)"
  "select_codigo sample_world = (\<lambda>n. None)"
  "insert_pedido sample_world = (\<lambda>p. \<lparr>ins_data = Some 41, ins_error = None\<rparr>)"
  by (simp_all add: sample_world_def)

lemma sample_request_sel:
  "req_method sample_request = js ''POST''"
  "query_test sample_request = None"
  "req_body sample_request = sample_body"
  "testMode_of sample_request = None"
  by (simp_all add: sample_request_def testMode_of_def)

lemma sample_columnData:
  "columnData sample_world sample_body (formatTimestamp sample_world) = Inr sample_columns"
  by (simp add: columnData_def sample_columns_def toUpper_def toLower_def
      rgu_of_def or_else_def field_def sample_body_def sample_world_sel
      toUpperCase_latin_def toLowerCase_latin_def)



lemma sample_save_sheets:
  "save_sheets sample_world None cols =
     (Inr 3, [SheetsValuesGet (js ''Fijo_EBSA!Q:Q''), SheetsGet, SheetsAppendDimension 7 1,
        SheetsValuesBatchUpdate (updates_of cols 3)])"
  by (simp add: save_sheets_def sample_world_sel bind_def call_def ret_def Let_def
      numeral_3_eq_3)

lemma sample_check_vendedor:
  "check_vendedor sample_world sample_body =
     (Inr (JStr (js ''Ana Soto''), JStr (js ''Norte'')), [DbSelectVendedor (js ''Ana Soto'')])"
  by (simp add: check_vendedor_def sample_fields bind_def call_def ret_def lift_def
      non_blank_JStr is_space_def sample_world_sel del: non_blank.simps(1))

lemma sample_check_codigo: "check_codigo sample_world sample_body = (Inr JNull, [])"
  by (simp add: check_codigo_def sample_fields bind_def ret_def lift_def)

lemma sample_rgu: "rgu_of sample_body = 1"
  by (simp add: rgu_of_def sample_fields)


lemma sample_save_pedido:
  "save_pedido sample_world sample_body None v c e n =
     (Inr (Some 41), [DbInsertPedido (pedido_of sample_body v c e (JStr (js ''Deco'')) 1 n)])"
  by (simp add: save_pedido_def sample_fields sample_rgu bind_def call_def ret_def lift_def
      Let_def sample_world_sel)

lemma sample_try_block:
  "try_block sample_world sample_request =
     (Inr (Submitted (formatTimestamp sample_world) (Some 41)),
      [SheetsValuesGet (js ''Fijo_EBSA!Q:Q''), SheetsGet, SheetsAppendDimension 7 1,
       SheetsValuesBatchUpdate (updates_of sample_columns 3),
       DbSelectVendedor (js ''Ana Soto''), DbInsertPedido sample_pedido])"
  by (simp add: try_block_def sample_request_sel Let_def
      sample_columnData sample_save_sheets sample_check_vendedor sample_check_codigo
      sample_save_pedido bind_def lift_def ret_def sample_pedido_def)

lemma sample_run:
  "handler sample_world sample_request =
     (Submitted (js ''27/10/2025 14:30:45'') (Some 41),
      [SheetsValuesGet (js ''Fijo_EBSA!Q:Q''), SheetsGet, SheetsAppendDimension 7 1,
       SheetsValuesBatchUpdate (updates_of sample_columns 3),
       DbSelectVendedor (js ''Ana Soto''), DbInsertPedido sample_pedido])"
  by (simp add: handler_def sample_try_block sample_request_sel sample_world_sel(1))


lemma failing_store_sel:
  "formatTimestamp failing_store = formatTimestamp sample_world"
  "insert_pedido failing_store = (\<lambda>p. \<lparr>ins_data = None, ins_error = Some (js ''23502'')\<rparr>)"
  by (simp_all add: failing_store_def)

lemma failing_store_stages:
  "columnData failing_store fd ts = columnData sample_world fd ts"
  "save_sheets failing_store tm cols = save_sheets sample_world tm cols"
  "check_vendedor failing_store fd = check_vendedor sample_world fd"
  "check_codigo failing_store fd = check_codigo sample_world fd"
proof -
  have u: "toUpper failing_store = toUpper sample_world" "toLower failing_store = toLower sample_world"
    by (simp_all add: fun_eq_iff toUpper_def toLower_def failing_store_def)
  show "columnData failing_store fd ts = columnData sample_world fd ts"
    by (simp add: columnData_def u cong: sum.case_cong)
  have s: "values_get failing_store = values_get sample_world"
    "spreadsheets_get failing_store = spreadsheets_get sample_world"
    "batchUpdate failing_store = batchUpdate sample_world"
    "values_batchUpdate failing_store = values_batchUpdate sample_world"
    "select_vendedor failing_store = select_vendedor sample_world"
    "select_codigo failing_store = select_codigo sample_world"
    by (simp_all add: failing_store_def)
  show "save_sheets failing_store tm cols = save_sheets sample_world tm cols"
    by (simp add: save_sheets_def s Let_def cong: option.case_cong if_cong)
  show "check_vendedor failing_store fd = check_vendedor sample_world fd"
    by (simp add: check_vendedor_def s cong: option.case_cong if_cong)
  show "check_codigo failing_store fd = check_codigo sample_world fd"
    by (simp add: check_codigo_def s cong: option.case_cong if_cong)
qed

lemma failing_save_pedido:
  "save_pedido failing_store sample_body None v c e n =
     (Inr None, [DbInsertPedido (pedido_of sample_body v c e (JStr (js ''Deco'')) 1 n),
                 ConsoleErrorSupabase (js ''23502'')])"
  by (simp add: save_pedido_def sample_fields sample_rgu bind_def call_def ret_def lift_def
      Let_def failing_store_sel)

lemma failing_try_block:
  "try_block failing_store sample_request =
     (Inr (Submitted (formatTimestamp sample_world) None),
      [SheetsValuesGet (js ''Fijo_EBSA!Q:Q''), SheetsGet, SheetsAppendDimension 7 1,
       SheetsValuesBatchUpdate (updates_of sample_columns 3),
       DbSelectVendedor (js ''Ana Soto''), DbInsertPedido sample_pedido,
       ConsoleErrorSupabase (js ''23502'')])"
  by (simp add: try_block_def sample_request_sel Let_def failing_store_stages failing_store_sel
      sample_columnData sample_save_sheets sample_check_vendedor sample_check_codigo
      failing_save_pedido bind_def lift_def ret_def sample_pedido_def)

lemma failing_run:
  "handler failing_store sample_request =
     (Submitted (js ''27/10/2025 14:30:45'') None,
      [SheetsValuesGet (js ''Fijo_EBSA!Q:Q''), SheetsGet, SheetsAppendDimension 7 1,
       SheetsValuesBatchUpdate (updates_of sample_columns 3),
       DbSelectVendedor (js ''Ana Soto''), DbInsertPedido sample_pedido,
       ConsoleErrorSupabase (js ''23502'')])"
  by (simp add: handler_def failing_try_block sample_request_sel sample_world_sel(1))

section \<open>The claims about the submission endpoint\<close>

subsection \<open>Facts shared by the claims\<close>

lemma truthy_or_false: "truthy (or_else v (JBool False)) = truthy v"
  by (simp add: or_else_def)

lemma pedido_of_flags:
  "rgu (pedido_of fd v c e a (rgu_of fd) n) =
     length (filter truthy
       [tiene_internet (pedido_of fd v c e a (rgu_of fd) n),
        tiene_television (pedido_of fd v c e a (rgu_of fd) n),
        tiene_telefonia (pedido_of fd v c e a (rgu_of fd) n)])"
  by (simp add: pedido_of_def rgu_of_def truthy_or_false)

lemma pedido_of_sel:
  "rgu (pedido_of fd v c e a r n) = r"
  "fila_sheets (pedido_of fd v c e a r n) = n"
  "equipo_id (pedido_of fd v c e a r n) = e"
  "tiene_internet (pedido_of fd v c e a r n) = or_else (field fd ''hasInternet'') (JBool False)"
  "tiene_television (pedido_of fd v c e a r n) = or_else (field fd ''hasTelevision'') (JBool False)"
  "tiene_telefonia (pedido_of fd v c e a r n) = or_else (field fd ''hasTelefonia'') (JBool False)"
  by (simp_all add: pedido_of_def)

lemma inserted_row:
  assumes "DbInsertPedido p \<in> set (snd (handler w req))"
  shows "\<exists>v e c a. fst (check_vendedor w (req_body req)) = Inr (v, e)
     \<and> p = pedido_of (req_body req) v c e a (rgu_of (req_body req)) (length (rows_read w) + 1)"
proof -
  from insert_reached [OF handler_insert [OF assms]] obtain cols n v e c where
    h: "fst (save_sheets w (testMode_of req) cols) = Inr n"
       "fst (check_vendedor w (req_body req)) = Inr (v, e)"
       "DbInsertPedido p \<in> set (snd (save_pedido w (req_body req) (testMode_of req) v c e n))"
    by blast
  from save_pedido_row [OF h(3)] obtain a where
    "p = pedido_of (req_body req) v c e a (rgu_of (req_body req)) n" by blast
  then show ?thesis using h(2) save_sheets_fst [OF h(1)] by blast
qed

lemma sample_inserted:
  "DbInsertPedido sample_pedido \<in> set (snd (handler sample_world sample_request))"
  by (simp add: sample_run)

lemma sample_updated:
  "SheetsValuesBatchUpdate (updates_of sample_columns 3)
     \<in> set (snd (handler sample_world sample_request))"
  by (simp add: sample_run)

lemma failing_inserted:
  "DbInsertPedido sample_pedido \<in> set (snd (handler failing_store sample_request))"
  by (simp add: failing_run)

lemma updates_in_row:
  "list_all (\<lambda>u. a1_tab (fst u) = js ''Fijo_EBSA'' \<and> a1_row (fst u) = n) (updates_of cols n)"
  by (induction cols) (auto simp: updates_of_def)


lemma no_append_outside_sheets:
  "filter is_sheets_call post = [] \<Longrightarrow> filter is_append post = []"
proof (induction post)
  case Nil
  then show ?case by simp
next
  case (Cons x xs)
  then show ?case by (cases x) (auto split: if_splits)
qed

lemma handler_post:
  assumes "req_method req = js ''POST''"
  shows "snd (handler w req) = snd (try_block w req)
           @ (case fst (try_block w req) of Inl x \<Rightarrow> [ConsoleErrorCaught x] | Inr r \<Rightarrow> [])"
    and "fst (handler w req) = (case fst (try_block w req) of Inl x \<Rightarrow> ServerError x | Inr r \<Rightarrow> r)"
  using assms by (auto simp: handler_def split: prod.splits sum.splits)






subsection \<open>The claims\<close>



text \<open>
  C2. In a normal-mode submission in which the relational insert is attempted and fails,
  the handler logs the store's error and goes on: the response is 200 with
  \<open>success: true\<close> and no \<open>pedidoId\<close>, nothing is thrown, and the batch update that wrote
  the spreadsheet row had succeeded before and is followed by no further call to the
  spreadsheet, so the row stays written.
\<close>

theorem failed_insert_is_swallowed:
  assumes "req_method req = js ''POST''" and "query_test req = None"
    and "DbInsertPedido p \<in> set (snd (handler w req))"
    and "ins_error (insert_pedido w p) = Some err"
  shows "fst (handler w req) = Submitted (formatTimestamp w) None
       \<and> status (fst (handler w req)) = 200
       \<and> success (fst (handler w req)) = Some True
       \<and> pedidoId (fst (handler w req)) = None
       \<and> (\<exists>pre ups mid.
             snd (handler w req) =
               pre @ [SheetsValuesBatchUpdate ups] @ mid
                 @ [DbInsertPedido p, ConsoleErrorSupabase err]
           \<and> values_batchUpdate w ups = Inr ()
           \<and> filter is_sheets_call mid = [])"
proof -
  have tm: "testMode_of req = None" using assms(2) by (simp add: testMode_of_def)
  from insert_reached [OF handler_insert [OF assms(3)]] obtain cols n v e c where
    ir: "fst (save_sheets w (testMode_of req) cols) = Inr n"
        "DbInsertPedido p \<in> set (snd (save_pedido w (req_body req) (testMode_of req) v c e n))"
        "snd (try_block w req) =
          snd (save_sheets w (testMode_of req) cols) @ snd (check_vendedor w (req_body req))
          @ snd (check_codigo w (req_body req))
          @ snd (save_pedido w (req_body req) (testMode_of req) v c e n)"
        "fst (try_block w req) =
          (case fst (save_pedido w (req_body req) (testMode_of req) v c e n) of
             Inl x \<Rightarrow> Inl x
           | Inr pid \<Rightarrow> Inr (if testMode_of req = Some (js ''supabase'')
                             then SupabaseOnly pid (truthy v) (truthy c)
                             else Submitted (formatTimestamp w) pid))"
    by blast
  from save_pedido_row [OF ir(2)] have
    sp: "snd (save_pedido w (req_body req) (testMode_of req) v c e n) =
           [DbInsertPedido p, ConsoleErrorSupabase err]"
        "fst (save_pedido w (req_body req) (testMode_of req) v c e n) = Inr None"
    using assms(4) by auto
  have res: "fst (try_block w req) = Inr (Submitted (formatTimestamp w) None)"
    unfolding ir(4) sp(2) using tm by simp
  then have r: "fst (handler w req) = Submitted (formatTimestamp w) None"
    using handler_post(2) [OF assms(1), of w] by simp
  have tr: "snd (handler w req) = snd (try_block w req)"
    using handler_post(1) [OF assms(1), of w] res by simp
  define ups where "ups = updates_of cols n"
  have "SheetsValuesBatchUpdate ups \<in> set (snd (save_sheets w (testMode_of req) cols))"
    unfolding ups_def using ir(1) tm by (intro save_sheets_written) simp_all
  from save_sheets_shape [OF this] obtain sheets where
    "spreadsheets_get w = Inr sheets
     \<and> ups = updates_of cols (length (rows_read w) + 1)
     \<and> testMode_of req \<noteq> Some (js ''supabase'')
     \<and> snd (save_sheets w (testMode_of req) cols) =
          [SheetsValuesGet (js ''Fijo_EBSA!Q:Q''), SheetsGet]
          @ (case find (\<lambda>sheet. title sheet = js ''Fijo_EBSA'') sheets of
               Some fijoSheet \<Rightarrow> [SheetsAppendDimension (sheetId fijoSheet) 1]
             | None \<Rightarrow> [])
          @ [SheetsValuesBatchUpdate ups]
     \<and> fst (save_sheets w (testMode_of req) cols) =
          (case values_batchUpdate w ups of Inl x \<Rightarrow> Inl x
           | Inr u \<Rightarrow> Inr (length (rows_read w) + 1))" ..
  then have ss: "snd (save_sheets w (testMode_of req) cols) =
          [SheetsValuesGet (js ''Fijo_EBSA!Q:Q''), SheetsGet]
          @ (case find (\<lambda>sheet. title sheet = js ''Fijo_EBSA'') sheets of
               Some fijoSheet \<Rightarrow> [SheetsAppendDimension (sheetId fijoSheet) 1]
             | None \<Rightarrow> [])
          @ [SheetsValuesBatchUpdate ups]"
      and fs: "fst (save_sheets w (testMode_of req) cols) =
          (case values_batchUpdate w ups of Inl x \<Rightarrow> Inl x
           | Inr u \<Rightarrow> Inr (length (rows_read w) + 1))"
    by (rule conjunct1 [OF conjunct2 [OF conjunct2 [OF conjunct2]]],
        rule conjunct2 [OF conjunct2 [OF conjunct2 [OF conjunct2]]])
  have ok: "values_batchUpdate w ups = Inr ()"
    using fs ir(1) by (cases "values_batchUpdate w ups") simp_all
  define pre where "pre = [SheetsValuesGet (js ''Fijo_EBSA!Q:Q''), SheetsGet]
          @ (case find (\<lambda>sheet. title sheet = js ''Fijo_EBSA'') sheets of
               Some fijoSheet \<Rightarrow> [SheetsAppendDimension (sheetId fijoSheet) 1]
             | None \<Rightarrow> [])"
  define mid where "mid = snd (check_vendedor w (req_body req)) @ snd (check_codigo w (req_body req))"
  have quiet: "filter is_sheets_call mid = []"
    unfolding mid_def by (simp add: check_vendedor_no_sheets check_codigo_no_sheets)
  have "snd (handler w req) =
          pre @ [SheetsValuesBatchUpdate ups] @ mid @ [DbInsertPedido p, ConsoleErrorSupabase err]"
    unfolding tr ir(3) ss sp(1) pre_def mid_def by simp
  then have "\<exists>pre ups mid.
             snd (handler w req) =
               pre @ [SheetsValuesBatchUpdate ups] @ mid
                 @ [DbInsertPedido p, ConsoleErrorSupabase err]
           \<and> values_batchUpdate w ups = Inr ()
           \<and> filter is_sheets_call mid = []"
    using ok quiet by blast
  then show ?thesis using r by simp
qed

theorem failed_insert_is_swallowed_witness:
  "req_method sample_request = js ''POST'' \<and> query_test sample_request = None
   \<and> DbInsertPedido sample_pedido \<in> set (snd (handler failing_store sample_request))
   \<and> ins_error (insert_pedido failing_store sample_pedido) = Some (js ''23502'')
   \<and> fst (handler failing_store sample_request) = Submitted (js ''27/10/2025 14:30:45'') None
   \<and> status (fst (handler failing_store sample_request)) = 200
   \<and> success (fst (handler failing_store sample_request)) = Some True"
proof -
  have e: "ins_error (insert_pedido failing_store sample_pedido) = Some (js ''23502'')"
    by (simp add: failing_store_sel)
  from failed_insert_is_swallowed [OF sample_request_sel(1,2) failing_inserted e]
  show ?thesis
    using sample_request_sel(1,2) failing_inserted e
    by (simp add: failing_store_sel sample_world_sel)
qed

text \<open>
  C6. A POST with the query parameter \<open>test=validation\<close> is answered with status 200 and
  \<open>success: true\<close>, echoing whether \<open>selectedVendedor\<close>, \<open>selectedCodigo\<close>,
  \<open>selectedMarca\<close>, \<open>rut\<close> and \<open>selectedPlan\<close> are present (truthy) and the number of
  fields received. The handler makes no call at all on the way: neither the spreadsheet
  API nor the relational store is reached, so neither backend changes.
\<close>

theorem validation_mode_touches_no_backend:
  assumes "req_method req = js ''POST''" and "query_test req = Some (js ''validation'')"
  shows "fst (handler w req) =
           ValidationOk (truthy (field (req_body req) ''selectedVendedor''))
             (truthy (field (req_body req) ''selectedCodigo''))
             (truthy (field (req_body req) ''selectedMarca''))
             (truthy (field (req_body req) ''rut''))
             (truthy (field (req_body req) ''selectedPlan''))
             (keys_length (req_body req))
       \<and> status (fst (handler w req)) = 200
       \<and> success (fst (handler w req)) = Some True
       \<and> snd (handler w req) = []"
  using assms by (simp add: handler_def try_block_def testMode_of_def ret_def Let_def)

theorem validation_mode_witness:
  "req_method validation_request = js ''POST''
   \<and> query_test validation_request = Some (js ''validation'')
   \<and> fst (handler sample_world validation_request) = ValidationOk True False False True True 10
   \<and> snd (handler sample_world validation_request) = []"
proof -
  have m: "req_method validation_request = js ''POST''"
    and q: "query_test validation_request = Some (js ''validation'')"
    and b: "req_body validation_request = sample_body"
    by (simp_all add: validation_request_def sample_request_def)
  have k: "keys_length sample_body = 10"
    by (simp add: keys_length_def sample_body_def)
  show ?thesis
    using validation_mode_touches_no_backend [OF m q, of sample_world] m q
    by (simp add: b k sample_fields)
qed

text \<open>
  C7, as stated, does not hold: the request that appends a row is not reserved for a
  sheet that lacks room. In the sample run the tab has 1000 rows and the next row is 3,
  and the handler still asks for one more row.
\<close>

theorem append_despite_room:
  "has_room sample_world
   \<and> filter is_append (snd (handler sample_world sample_request)) = [SheetsAppendDimension 7 1]"
  by (simp add: has_room_def rows_read_def sample_world_sel sample_run)

text \<open>
  C7, as amended. The handler determines the next row by reading the length of column Q
  and, before writing the row through a batch update, asks for exactly one more row
  whenever the sheet's metadata holds a tab named \<open>Fijo_EBSA\<close>, whatever the tab's
  row count; when there is no such tab it asks for none. The request comes after the
  two reads and before the batch update, and none follows the batch update.
\<close>

theorem append_whenever_tab_found:
  assumes "SheetsValuesBatchUpdate ups \<in> set (snd (handler w req))"
  shows "\<exists>sheets pre post.
       spreadsheets_get w = Inr sheets
     \<and> snd (handler w req) = pre @ [SheetsValuesBatchUpdate ups] @ post
     \<and> pre = [SheetsValuesGet (js ''Fijo_EBSA!Q:Q''), SheetsGet]
          @ (case find (\<lambda>sheet. title sheet = js ''Fijo_EBSA'') sheets of
               Some fijoSheet \<Rightarrow> [SheetsAppendDimension (sheetId fijoSheet) 1]
             | None \<Rightarrow> [])
     \<and> filter is_append post = []
     \<and> list_all (\<lambda>u. a1_row (fst u) = length (rows_read w) + 1) ups"
proof -
  from handler_shape [OF assms] obtain sheets cols post where
    sh0: "spreadsheets_get w = Inr sheets"
    and sh: "columnData w (req_body req) (formatTimestamp w) = Inr cols"
        "ups = updates_of cols (length (rows_read w) + 1)"
        "snd (handler w req) =
          [SheetsValuesGet (js ''Fijo_EBSA!Q:Q''), SheetsGet]
          @ (case find (\<lambda>sheet. title sheet = js ''Fijo_EBSA'') sheets of
               Some fijoSheet \<Rightarrow> [SheetsAppendDimension (sheetId fijoSheet) 1]
             | None \<Rightarrow> [])
          @ [SheetsValuesBatchUpdate ups] @ post"
        "filter is_sheets_call post = []"
    by (elim exE conjE) (rule that)
  have "list_all (\<lambda>u. a1_tab (fst u) = js ''Fijo_EBSA''
             \<and> a1_row (fst u) = length (rows_read w) + 1) ups"
    unfolding sh(2) by (rule updates_in_row)
  then have rows: "list_all (\<lambda>u. a1_row (fst u) = length (rows_read w) + 1) ups"
    by (simp add: list_all_iff)
  show ?thesis
    using sh0 sh(3) no_append_outside_sheets [OF sh(4)] rows by auto
qed

theorem append_whenever_tab_found_witness:
  "SheetsValuesBatchUpdate (updates_of sample_columns 3)
     \<in> set (snd (handler sample_world sample_request))
   \<and> find (\<lambda>sheet. title sheet = js ''Fijo_EBSA'')
        [\<lparr>title = js ''Fijo_EBSA'', sheetId = 7, rowCount = 1000\<rparr>]
      = Some \<lparr>title = js ''Fijo_EBSA'', sheetId = 7, rowCount = 1000\<rparr>
   \<and> (\<exists>post. snd (handler sample_world sample_request) =
          [SheetsValuesGet (js ''Fijo_EBSA!Q:Q''), SheetsGet, SheetsAppendDimension 7 1,
           SheetsValuesBatchUpdate (updates_of sample_columns 3)] @ post
        \<and> filter is_append post = [])"
proof -
  from append_whenever_tab_found [OF sample_updated] obtain sheets pre post where
    h: "spreadsheets_get sample_world = Inr sheets"
       "snd (handler sample_world sample_request) =
          pre @ [SheetsValuesBatchUpdate (updates_of sample_columns 3)] @ post"
       "pre = [SheetsValuesGet (js ''Fijo_EBSA!Q:Q''), SheetsGet]
          @ (case find (\<lambda>sheet. title sheet = js ''Fijo_EBSA'') sheets of
               Some fijoSheet \<Rightarrow> [SheetsAppendDimension (sheetId fijoSheet) 1]
             | None \<Rightarrow> [])"
       "filter is_append post = []"
    by (elim exE conjE) (rule that)
  have s: "sheets = [\<lparr>title = js ''Fijo_EBSA'', sheetId = 7, rowCount = 1000\<rparr>]"
    using h(1) by (simp add: sample_world_sel)
  have f: "find (\<lambda>sheet. title sheet = js ''Fijo_EBSA'')
        [\<lparr>title = js ''Fijo_EBSA'', sheetId = 7, rowCount = 1000\<rparr>]
      = Some \<lparr>title = js ''Fijo_EBSA'', sheetId = 7, rowCount = 1000\<rparr>"
    by simp
  have "snd (handler sample_world sample_request) =
          [SheetsValuesGet (js ''Fijo_EBSA!Q:Q''), SheetsGet, SheetsAppendDimension 7 1,
           SheetsValuesBatchUpdate (updates_of sample_columns 3)] @ post"
    using h(2) unfolding h(3) s by simp
  then show ?thesis using sample_updated f h(4) by blast
qed


text \<open>
  C9. In every row the handler inserts into \<open>pedidos\<close>, the stored \<open>rgu\<close> is the number
  of active flags among \<open>tiene_internet\<close>, \<open>tiene_television\<close> and \<open>tiene_telefonia\<close> of
  that same row; the count and the three flags come from the same \<open>hasInternet\<close>,
  \<open>hasTelevision\<close> and \<open>hasTelefonia\<close> of the form.
\<close>

theorem rgu_counts_stored_flags:
  assumes "DbInsertPedido p \<in> set (snd (handler w req))"
  shows "rgu p = length (filter truthy [tiene_internet p, tiene_television p, tiene_telefonia p])
       \<and> rgu p = rgu_of (req_body req)
       \<and> tiene_internet p = or_else (field (req_body req) ''hasInternet'') (JBool False)
       \<and> tiene_television p = or_else (field (req_body req) ''hasTelevision'') (JBool False)
       \<and> tiene_telefonia p = or_else (field (req_body req) ''hasTelefonia'') (JBool False)"
proof -
  from inserted_row [OF assms] obtain v e c a where
    p: "p = pedido_of (req_body req) v c e a (rgu_of (req_body req)) (length (rows_read w) + 1)"
    by blast
  show ?thesis unfolding p using pedido_of_flags by (simp only: pedido_of_sel simp_thms)
qed

theorem rgu_counts_stored_flags_witness:
  "DbInsertPedido sample_pedido \<in> set (snd (handler sample_world sample_request))
   \<and> rgu sample_pedido = 1
   \<and> [tiene_internet sample_pedido, tiene_television sample_pedido, tiene_telefonia sample_pedido]
       = [JBool True, JBool False, JBool False]"
proof -
  have f: "[tiene_internet sample_pedido, tiene_television sample_pedido,
            tiene_telefonia sample_pedido] = [JBool True, JBool False, JBool False]"
    by (simp add: sample_pedido_def pedido_of_sel sample_fields or_else_def)
  from rgu_counts_stored_flags [OF sample_inserted]
  have "rgu sample_pedido = length (filter truthy
     [tiene_internet sample_pedido, tiene_television sample_pedido, tiene_telefonia sample_pedido])"
    by blast
  then have "rgu sample_pedido = 1" unfolding f by simp
  then show ?thesis using sample_inserted f by blast
qed

text \<open>
  C10. In every row the handler inserts, \<open>equipo_id\<close> is the submitted \<open>equipo\<close> exactly
  when the submitted seller name is a string that is not blank and the case-insensitive
  query on \<open>vendedores\<close> returns a row for it; in every other case, seller blank or
  seller not found, \<open>equipo_id\<close> is \<open>null\<close> whatever \<open>equipo\<close> the form carried. This
  holds in normal mode and in any other mode that inserts.
\<close>

theorem equipo_id_needs_known_seller:
  assumes "DbInsertPedido p \<in> set (snd (handler w req))"
  shows "equipo_id p =
     (if \<exists>s. field (req_body req) ''selectedVendedor'' = JStr s \<and> \<not> list_all is_space s
              \<and> select_vendedor w s \<noteq> None
      then field (req_body req) ''equipo'' else JNull)"
proof -
  from inserted_row [OF assms] obtain v e c a where
    ve: "fst (check_vendedor w (req_body req)) = Inr (v, e)"
    and p: "p = pedido_of (req_body req) v c e a (rgu_of (req_body req)) (length (rows_read w) + 1)"
    by blast
  have "equipo_id p = e" unfolding p by (rule pedido_of_sel)
  then show ?thesis using check_vendedor_equipo [OF ve] by simp
qed

theorem equipo_id_needs_known_seller_witness:
  "DbInsertPedido sample_pedido \<in> set (snd (handler sample_world sample_request))
   \<and> equipo_id sample_pedido = JStr (js ''Norte'')
   \<and> field (req_body sample_request) ''equipo'' = JStr (js ''Norte'')
   \<and> field (req_body sample_request) ''selectedVendedor'' = JStr (js ''Ana Soto'')
   \<and> select_vendedor sample_world (js ''Ana Soto'') = Some 3"
proof -
  have known: "\<exists>s. field (req_body sample_request) ''selectedVendedor'' = JStr s
      \<and> \<not> list_all is_space s \<and> select_vendedor sample_world s \<noteq> None"
    by (rule exI [of _ "js ''Ana Soto''"])
       (simp add: sample_request_sel sample_fields sample_world_sel is_space_def)
  from equipo_id_needs_known_seller [OF sample_inserted]
  have "equipo_id sample_pedido = field (req_body sample_request) ''equipo''"
    using known by (simp only: if_True)
  then show ?thesis
    using sample_inserted by (simp add: sample_request_sel sample_fields sample_world_sel)
qed

section \<open>The claim about the plan selector\<close>










section \<open>The claim about the upload endpoint\<close>

text \<open>
  What holds of the two checks: a payload that decodes to more than 10 MB is answered
  with a 400 and no put, with the size message once the request has passed the earlier
  validations; and a \<open>contentType\<close> that is neither a key of \<open>ALLOWED_TYPES\<close> nor the name
  of an inherited member is answered with a 400 and no put.
\<close>

lemma oversize_rejected:
  assumes "up_method req = js ''POST''"
    and "length (Buffer_from_base64 w (strip_data_url (str (file' (up_body req))))) > MAX_FILE_SIZE"
  shows "up_status (fst (upload_handler w req)) = 400 \<and> snd (upload_handler w req) = []"
  using assms by (simp add: upload_handler_def Let_def)

lemma oversize_message:
  assumes "up_method req = js ''POST''"
    and "present (file' (up_body req))" and "present (filename (up_body req))"
    and "present (contentType (up_body req))" and "present (upload_body.categoria (up_body req))"
    and "present (upload_body.rut (up_body req))"
    and "prop_truthy (get_prop CATEGORIA_CONFIG (str (upload_body.categoria (up_body req))))"
    and "prop_truthy (get_prop ALLOWED_TYPES (str (contentType (up_body req))))"
    and "length (Buffer_from_base64 w (strip_data_url (str (file' (up_body req))))) > MAX_FILE_SIZE"
  shows "upload_handler w req =
     (TooLarge (length (Buffer_from_base64 w (strip_data_url (str (file' (up_body req)))))), [])"
  using assms by (simp add: upload_handler_def Let_def)

lemma unlisted_type_rejected:
  assumes "up_method req = js ''POST''"
    and "get_prop ALLOWED_TYPES (str (contentType (up_body req))) = Missing"
  shows "up_status (fst (upload_handler w req)) = 400 \<and> snd (upload_handler w req) = []"
  using assms by (simp add: upload_handler_def Let_def)

lemma constructor_not_allowed: "map_of ALLOWED_TYPES (js ''constructor'') = None"
  by (simp add: ALLOWED_TYPES_def)

lemma constructor_inherited:
  "get_prop ALLOWED_TYPES (js ''constructor'') = Inherited (js ''constructor'')"
  by (simp add: get_prop_def ALLOWED_TYPES_def object_prototype_keys_def)

lemma rut_frontal_config:
  "get_prop CATEGORIA_CONFIG (js ''rut-frontal'') = Own (js ''rut-frontal'', js ''frontal'')"
  by (simp add: get_prop_def CATEGORIA_CONFIG_def)

lemma sample_decoded: "b64_decode (js ''QQ=='') = [65]"
  by (simp add: b64_decode_def b64_value_def List.map_filter_def)

lemma sample_stripped: "strip_data_url (js ''QQ=='') = js ''QQ==''"
  by (simp add: strip_data_url_def)

text \<open>
  C5 says that a request whose \<open>contentType\<close> is outside the allow-list (image/jpeg,
  image/jpg, image/png, image/webp, application/pdf) is rejected with a 400 before any
  put. The handler tests \<open>ALLOWED_TYPES[contentType]\<close>, which also finds what the table
  inherits: for the \<open>contentType\<close> \<open>constructor\<close> the test passes, the object is put with
  that content type, and the response is a 200.
\<close>

theorem constructor_type_is_uploaded:
  "map_of ALLOWED_TYPES (js ''constructor'') = None
   \<and> up_status (fst (upload_handler sample_r2 constructor_upload)) = 200
   \<and> map ContentType (snd (upload_handler sample_r2 constructor_upload)) = [js ''constructor'']
   \<and> map Key (snd (upload_handler sample_r2 constructor_upload))
        = [js ''rut-frontal/123456789-frontal.function Object() { [native code] }'']
   \<and> map Body (snd (upload_handler sample_r2 constructor_upload)) = [[65]]"
  by (simp add: upload_handler_def constructor_upload_def sample_r2_def Let_def
      get_prop_def ALLOWED_TYPES_def CATEGORIA_CONFIG_def object_prototype_keys_def
      b64_decode_def b64_value_def List.map_filter_def strip_data_url_def
      MAX_FILE_SIZE_def sanitizeRut_def)

theorem constructor_type_is_uploaded_witness:
  "present (file' (up_body constructor_upload))
   \<and> present (filename (up_body constructor_upload))
   \<and> present (contentType (up_body constructor_upload))
   \<and> present (upload_body.categoria (up_body constructor_upload))
   \<and> present (upload_body.rut (up_body constructor_upload))
   \<and> contentType (up_body constructor_upload) = Some (js ''constructor'')
   \<and> up_status (fst (upload_handler sample_r2 constructor_upload)) = 200
   \<and> map ContentType (snd (upload_handler sample_r2 constructor_upload)) = [js ''constructor'']"
  using constructor_type_is_uploaded by (simp add: constructor_upload_def)

end
